theory Spec2Isabelle
  imports Complex_Main
begin

section \<open>Python values and exceptions\<close>

text \<open>
  The exceptions the modelled code can raise. A function of the source that can raise
  returns \<open>py_error + 'a\<close>, with \<open>Inl\<close> the exception.
\<close>

datatype py_error = AttributeError | ZeroDivisionError | ValueError

text \<open>
  A dynamically typed value, as \<open>json.loads\<close> produces it and as the fields of a
  dataclass hold it (Python checks no annotation at run time).
\<close>

datatype pyval =
    PNone
  | PBool bool
  | PNum real
  | PStr string
  | PList "pyval list"
  | PDict "(string \<times> pyval) list"

text \<open>\<open>d.get(key, default)\<close> on the items of a dict.\<close>

definition dict_get :: "(string \<times> pyval) list \<Rightarrow> string \<Rightarrow> pyval \<Rightarrow> pyval" where
  "dict_get kv k dflt = (case map_of kv k of None \<Rightarrow> dflt | Some v \<Rightarrow> v)"

text \<open>The truth value of a value, as \<open>if\<close>, \<open>or\<close> and \<open>not\<close> take it.\<close>

fun pyval_truthy :: "pyval \<Rightarrow> bool" where
  "pyval_truthy PNone = False"
| "pyval_truthy (PBool b) = b"
| "pyval_truthy (PNum x) = (x \<noteq> 0)"
| "pyval_truthy (PStr s) = (s \<noteq> [])"
| "pyval_truthy (PList xs) = (xs \<noteq> [])"
| "pyval_truthy (PDict kv) = (kv \<noteq> [])"

text \<open>\<open>x or {}\<close> for an optional argument: \<open>None\<close> and every false value give \<open>{}\<close>.\<close>

definition or_empty_dict :: "pyval option \<Rightarrow> pyval" where
  "or_empty_dict x =
     (case x of None \<Rightarrow> PDict [] | Some v \<Rightarrow> if pyval_truthy v then v else PDict [])"

section \<open>Advisory generator (civilian\_ai\_advisor.py)\<close>

datatype OperationType =
    FILMING_WEDDING
  | FILMING_ADVERTISEMENT
  | FILMING_EVENT
  | MUSTERING
  | HUNTING
  | SURVEYING
  | INSPECTION
  | SEARCH_RESCUE

fun OperationType_value :: "OperationType \<Rightarrow> string" where
  "OperationType_value FILMING_WEDDING = ''filming_wedding''"
| "OperationType_value FILMING_ADVERTISEMENT = ''filming_advertisement''"
| "OperationType_value FILMING_EVENT = ''filming_event''"
| "OperationType_value MUSTERING = ''mustering''"
| "OperationType_value HUNTING = ''hunting''"
| "OperationType_value SURVEYING = ''surveying''"
| "OperationType_value INSPECTION = ''inspection''"
| "OperationType_value SEARCH_RESCUE = ''search_rescue''"

record FilmingAdvice =
  recommended_altitude :: pyval
  recommended_speed :: pyval
  camera_angles :: pyval
  shot_sequence :: pyval
  lighting_advice :: pyval
  weather_considerations :: pyval
  framing_tips :: pyval
  tracking_strategy :: pyval

text \<open>
  The reasoning-service capability: what one call of
  \<open>claude_integration.generate_expert_advice(question, context)\<close> does, either returning
  a text or raising an exception (a subclass of \<open>Exception\<close>).
\<close>

datatype cap_result = Returns string | Raises

type_synonym capability = "string \<Rightarrow> pyval \<Rightarrow> cap_result"

definition shot :: "string \<Rightarrow> string \<Rightarrow> real \<Rightarrow> pyval" where
  "shot ty descr dur =
     PDict [(''shot_type'', PStr ty), (''description'', PStr descr), (''duration'', PNum dur)]"

definition wedding_default :: FilmingAdvice where
  "wedding_default =
     \<lparr> recommended_altitude = PNum 25,
       recommended_speed = PNum 2,
       camera_angles = PList [PStr ''overhead'', PStr ''side'', PStr ''follow'', PStr ''reveal''],
       shot_sequence = PList
         [shot ''establishing'' ''Wide shot of venue'' 5,
          shot ''following'' ''Follow couple walking'' 10,
          shot ''overhead'' ''Aerial view of ceremony'' 15,
          shot ''reveal'' ''Reveal shot of venue'' 8],
       lighting_advice =
         PStr ''Golden hour (sunrise/sunset) provides best lighting. Avoid harsh midday sun.'',
       weather_considerations =
         PStr ''Clear skies preferred. Wind speeds should be below 10 m/s for stable footage.'',
       framing_tips = PList
         [PStr ''Keep couple centered in frame'',
          PStr ''Use rule of thirds for composition'',
          PStr ''Maintain smooth, gradual movements'',
          PStr ''Capture both wide and close-up shots''],
       tracking_strategy =
         PStr ''Use smooth follow mode with gradual altitude changes. Maintain consistent distance from subjects.'' \<rparr>"

definition advertisement_default :: FilmingAdvice where
  "advertisement_default =
     \<lparr> recommended_altitude = PNum 40,
       recommended_speed = PNum 4,
       camera_angles = PList [PStr ''overhead'', PStr ''orbit'', PStr ''dolly'', PStr ''crane''],
       shot_sequence = PList
         [shot ''establishing'' ''Wide establishing shot'' 3,
          shot ''orbit'' ''Orbit around subject'' 8,
          shot ''dolly'' ''Forward tracking shot'' 5,
          shot ''reveal'' ''Dramatic reveal'' 4],
       lighting_advice =
         PStr ''Professional lighting setup recommended. Consider time of day for natural lighting.'',
       weather_considerations =
         PStr ''Controlled environment preferred. Check for wind and precipitation.'',
       framing_tips = PList
         [PStr ''Dynamic camera movements'',
          PStr ''Multiple angles for variety'',
          PStr ''Smooth transitions between shots'',
          PStr ''Focus on product/subject''],
       tracking_strategy =
         PStr ''Precise tracking with multiple waypoints. Use orbit and dolly movements for dynamic shots.'' \<rparr>"

definition generic_default :: FilmingAdvice where
  "generic_default =
     \<lparr> recommended_altitude = PNum 30,
       recommended_speed = PNum 3,
       camera_angles = PList [PStr ''overhead'', PStr ''side'', PStr ''follow''],
       shot_sequence = PList [],
       lighting_advice = PStr ''Use natural lighting when possible'',
       weather_considerations = PStr ''Check weather conditions before flight'',
       framing_tips = PList [PStr ''Keep subject centered'', PStr ''Use rule of thirds''],
       tracking_strategy = PStr ''Smooth tracking with gradual movements'' \<rparr>"

text \<open>\<open>_get_filming_advice_default\<close>: the arguments after the kind are not read.\<close>

definition get_filming_advice_default ::
  "OperationType \<Rightarrow> pyval \<Rightarrow> pyval option \<Rightarrow> pyval option \<Rightarrow> FilmingAdvice" where
  "get_filming_advice_default operation_type location subject_info weather =
     (if operation_type = FILMING_WEDDING then wedding_default
      else if operation_type = FILMING_ADVERTISEMENT then advertisement_default
      else generic_default)"

text \<open>
  The body of the inner \<open>try\<close>: the eight \<open>advice_json.get(...)\<close> calls. A parsed value
  that is no dict has no \<open>get\<close> and raises \<open>AttributeError\<close>.
\<close>

definition advice_of_json :: "pyval \<Rightarrow> py_error + FilmingAdvice" where
  "advice_of_json advice_json =
     (case advice_json of
        PDict kv \<Rightarrow> Inr
          \<lparr> recommended_altitude = dict_get kv ''recommended_altitude'' (PNum 30),
            recommended_speed = dict_get kv ''recommended_speed'' (PNum 3),
            camera_angles = dict_get kv ''camera_angles''
              (PList [PStr ''overhead'', PStr ''side'', PStr ''follow'']),
            shot_sequence = dict_get kv ''shot_sequence'' (PList []),
            lighting_advice = dict_get kv ''lighting_advice''
              (PStr ''Use natural lighting when possible''),
            weather_considerations = dict_get kv ''weather_considerations''
              (PStr ''Check weather conditions before flight''),
            framing_tips = dict_get kv ''framing_tips''
              (PList [PStr ''Keep subject centered'', PStr ''Use rule of thirds'']),
            tracking_strategy = dict_get kv ''tracking_strategy''
              (PStr ''Smooth tracking with gradual movements'') \<rparr>
      | _ \<Rightarrow> Inl AttributeError)"

text \<open>
  \<open>_get_filming_advice_from_ai\<close>. \<open>loads\<close> is \<open>json.loads\<close>, with \<open>None\<close> for
  \<open>JSONDecodeError\<close>. The inner \<open>except json.JSONDecodeError\<close> and the outer
  \<open>except Exception\<close> both return the default.
\<close>

definition get_filming_advice_from_ai ::
  "capability \<Rightarrow> (string \<Rightarrow> pyval option) \<Rightarrow> OperationType \<Rightarrow> pyval \<Rightarrow> pyval option \<Rightarrow>
     pyval option \<Rightarrow> py_error + FilmingAdvice" where
  "get_filming_advice_from_ai cap loads operation_type location subject_info weather =
     (let context = PDict
            [(''operation_type'', PStr (OperationType_value operation_type)),
             (''location'', location),
             (''subject_info'', or_empty_dict subject_info),
             (''weather'', or_empty_dict weather)];
          question = ''Provide expert filming advice for a '' @
            OperationType_value operation_type @ '' operation at this location.''
      in case cap question context of
           Raises \<Rightarrow>
             Inr (get_filming_advice_default operation_type location subject_info weather)
         | Returns advice_text \<Rightarrow>
             (case loads advice_text of
                None \<Rightarrow>
                  Inr (get_filming_advice_default operation_type location subject_info weather)
              | Some advice_json \<Rightarrow>
                  (case advice_of_json advice_json of
                     Inl e \<Rightarrow>
                       Inr (get_filming_advice_default operation_type location subject_info
                              weather)
                   | Inr advice \<Rightarrow> Inr advice)))"

text \<open>
  \<open>get_filming_advice\<close>. \<open>claude_integration\<close> is \<open>None\<close> when no capability is
  configured (the object defines neither \<open>__bool__\<close> nor \<open>__len__\<close>, so it is true
  whenever present).
\<close>

definition get_filming_advice ::
  "capability option \<Rightarrow> (string \<Rightarrow> pyval option) \<Rightarrow> OperationType \<Rightarrow> pyval \<Rightarrow>
     pyval option \<Rightarrow> pyval option \<Rightarrow> py_error + FilmingAdvice" where
  "get_filming_advice claude_integration loads operation_type location subject_info weather =
     (case claude_integration of
        Some cap \<Rightarrow>
          get_filming_advice_from_ai cap loads operation_type location subject_info weather
      | None \<Rightarrow>
          Inr (get_filming_advice_default operation_type location subject_info weather))"

section \<open>Formatting integers\<close>

text \<open>\<open>str(n)\<close> for the integers that the f-strings of the source interpolate.\<close>

definition digit_char :: "nat \<Rightarrow> char" where
  "digit_char d = ''0123456789'' ! d"

function show_nat :: "nat \<Rightarrow> string" where
  "show_nat n = (if n < 10 then [digit_char n] else show_nat (n div 10) @ [digit_char (n mod 10)])"
  by pat_completeness auto
termination
  by (relation "measure id") auto

declare show_nat.simps [simp del]

definition show_int :: "int \<Rightarrow> string" where
  "show_int i = (if i < 0 then CHR ''-'' # show_nat (nat (- i)) else show_nat (nat i))"

section \<open>Geodesy utilities and route planner (civilian\_route\_planner.py)\<close>

text \<open>
  A Python float that is a number is modelled as a real: \<open>np.radians\<close>,
  \<open>np.degrees\<close>, \<open>np.sin\<close> and \<open>np.cos\<close> are the real functions, \<open>np.arctan2\<close> is
  the two-argument arctangent with values in \<open>(-\<pi>, \<pi>]\<close>, and \<open>%\<close> on floats is the
  floored remainder.

  The distance computation is where a float need not be a number. Its value is a
  \<open>pyfloat\<close>: a number, one of the two infinities, or NaN. \<open>np.sqrt\<close> of a negative
  number is NaN, and arithmetic on NaN gives NaN. The haversine term is computed in
  double arithmetic, with a rounding error: every function that computes a distance
  takes \<open>rnd\<close>, which maps the exact value of the term to the double the source
  computes for it (the identity in exact arithmetic).
\<close>

datatype pyfloat = Number real | PosInf | NegInf | NaN

definition np_sqrt :: "real \<Rightarrow> pyfloat" where
  "np_sqrt x = (if x < 0 then NaN else Number (sqrt x))"

text \<open>\<open>x + y\<close> on floats.\<close>

fun float_add :: "pyfloat \<Rightarrow> pyfloat \<Rightarrow> pyfloat" where
  "float_add NaN y = NaN"
| "float_add x NaN = NaN"
| "float_add (Number u) (Number v) = Number (u + v)"
| "float_add PosInf NegInf = NaN"
| "float_add NegInf PosInf = NaN"
| "float_add PosInf y = PosInf"
| "float_add NegInf y = NegInf"
| "float_add (Number u) y = y"

text \<open>
  \<open>x / d\<close> for a numpy float \<open>x\<close> and a number \<open>d\<close>: no exception is raised for
  \<open>d = 0\<close>, the quotient is then an infinity, or NaN for \<open>0 / 0\<close>.
\<close>

fun float_div :: "pyfloat \<Rightarrow> real \<Rightarrow> pyfloat" where
  "float_div NaN d = NaN"
| "float_div (Number u) d =
     (if d = 0 then (if u = 0 then NaN else if 0 < u then PosInf else NegInf)
      else Number (u / d))"
| "float_div PosInf d = (if d < 0 then NegInf else PosInf)"
| "float_div NegInf d = (if d < 0 then PosInf else NegInf)"

text \<open>\<open>x == y\<close> on floats: NaN is equal to nothing, itself included.\<close>

fun float_eq :: "pyfloat \<Rightarrow> pyfloat \<Rightarrow> bool" where
  "float_eq NaN y = False"
| "float_eq x NaN = False"
| "float_eq x y = (x = y)"

definition radians :: "real \<Rightarrow> real" where
  "radians d = d * pi / 180"

definition degrees :: "real \<Rightarrow> real" where
  "degrees r = r * 180 / pi"

definition arctan2 :: "real \<Rightarrow> real \<Rightarrow> real" where
  "arctan2 y x =
     (if 0 < x then arctan (y / x)
      else if x < 0 then (if 0 \<le> y then arctan (y / x) + pi else arctan (y / x) - pi)
      else if 0 < y then pi / 2
      else if y < 0 then - (pi / 2)
      else 0)"

definition py_mod :: "real \<Rightarrow> real \<Rightarrow> real" where
  "py_mod x m = x - m * of_int \<lfloor>x / m\<rfloor>"

datatype RouteType =
    ROUTE_FILMING
  | ROUTE_MUSTERING
  | ROUTE_HUNTING
  | ROUTE_SURVEYING
  | ROUTE_INSPECTION
  | ROUTE_GENERAL

text \<open>A position argument: a dict with the keys \<open>lat\<close> and \<open>lon\<close>.\<close>

record pos =
  pos_lat :: real
  pos_lon :: real

record CivilianWaypoint =
  lat :: real
  lon :: real
  altitude :: real
  heading :: real
  speed :: real
  description :: string
  shot_type :: "string option"
  camera_angle :: "string option"
  duration :: "real option"

record RoutePlan =
  route_id :: string
  route_type :: RouteType
  waypoints :: "CivilianWaypoint list"
  total_distance :: pyfloat
  estimated_duration :: pyfloat
  safety_score :: real
  optimization_tips :: "string list"
  route_weather_considerations :: string
  terrain_notes :: "string list"

text \<open>
  The \<open>planning\<close> section of the configuration: each key may be missing, and so may
  the section.
\<close>

record planning_config =
  cfg_max_altitude :: "real option"
  cfg_min_altitude :: "real option"
  cfg_cruise_speed :: "real option"
  cfg_filming_speed :: "real option"

text \<open>
  The planner object. \<open>approach_speed\<close> is an attribute that \<open>plan_general_route\<close>
  reads; \<open>None\<close> stands for an object that has no such attribute. The attribute
  \<open>ai_advisor\<close> is stored and never read by the planner, and is left out.
\<close>

record CivilianRoutePlanner =
  max_altitude :: real
  min_altitude :: real
  cruise_speed :: real
  filming_speed :: real
  approach_speed :: "real option"
  generated_routes :: "RoutePlan list"

definition cfg_get :: "planning_config option \<Rightarrow> (planning_config \<Rightarrow> real option) \<Rightarrow> real \<Rightarrow> real" where
  "cfg_get planning key dflt =
     (case planning of None \<Rightarrow> dflt
      | Some c \<Rightarrow> (case key c of None \<Rightarrow> dflt | Some v \<Rightarrow> v))"

text \<open>\<open>__init__\<close> assigns four planning parameters and the empty route history.\<close>

definition CivilianRoutePlanner_init :: "planning_config option \<Rightarrow> CivilianRoutePlanner" where
  "CivilianRoutePlanner_init planning =
     \<lparr> max_altitude = cfg_get planning cfg_max_altitude 120,
       min_altitude = cfg_get planning cfg_min_altitude 5,
       cruise_speed = cfg_get planning cfg_cruise_speed 5,
       filming_speed = cfg_get planning cfg_filming_speed 2,
       approach_speed = None,
       generated_routes = [] \<rparr>"

definition calculate_heading :: "pos \<Rightarrow> pos \<Rightarrow> real" where
  "calculate_heading start_pos end_pos =
     (let lat1 = radians (pos_lat start_pos);
          lat2 = radians (pos_lat end_pos);
          dlon = radians (pos_lon end_pos - pos_lon start_pos);
          y = sin dlon * cos lat2;
          x = cos lat1 * sin lat2 - sin lat1 * cos lat2 * cos dlon;
          heading = degrees (arctan2 y x)
      in py_mod (heading + 360) 360)"

text \<open>
  The haversine term \<open>a\<close> of one segment in exact arithmetic, from coordinates in
  degrees.
\<close>

definition haversine_a :: "real \<Rightarrow> real \<Rightarrow> real \<Rightarrow> real \<Rightarrow> real" where
  "haversine_a la1 lo1 la2 lo2 =
     (let lat1 = radians la1;
          lat2 = radians la2;
          dlat = lat2 - lat1;
          dlon = radians (lo2 - lo1)
      in (sin (dlat / 2))\<^sup>2 + cos lat1 * cos lat2 * (sin (dlon / 2))\<^sup>2)"

text \<open>
  The body of the loop of \<open>_calculate_total_distance\<close>: the length of one segment. The
  term goes into \<open>np.sqrt(a)\<close> and \<open>np.sqrt(1-a)\<close> as it was computed; the source does
  not clamp it to \<open>[0, 1]\<close>, so a computed term above 1 (or below 0) makes one of the
  roots NaN, and NaN passes through \<open>np.arctan2\<close> and the two products.
\<close>

definition segment_distance :: "(real \<Rightarrow> real) \<Rightarrow> CivilianWaypoint \<Rightarrow> CivilianWaypoint \<Rightarrow> pyfloat" where
  "segment_distance rnd wp1 wp2 =
     (let a = rnd (haversine_a (lat wp1) (lon wp1) (lat wp2) (lon wp2))
      in case (np_sqrt a, np_sqrt (1 - a)) of
           (Number root_a, Number root_1_a) \<Rightarrow>
             Number (6371000 * (2 * arctan2 root_a root_1_a))
         | _ \<Rightarrow> NaN)"

definition calculate_total_distance :: "(real \<Rightarrow> real) \<Rightarrow> CivilianWaypoint list \<Rightarrow> pyfloat" where
  "calculate_total_distance rnd wps =
     (if length wps < 2 then Number 0
      else foldl (\<lambda>total i. float_add total (segment_distance rnd (wps ! i) (wps ! (i + 1))))
             (Number 0) [0..<length wps - 1])"

text \<open>
  What the specification asks of an implementation: the term is clamped to \<open>[0, 1]\<close>
  before the inverse-trigonometric step. This is not the source; it is kept to compare
  the source with.
\<close>

definition spec_clamped_segment_distance ::
  "(real \<Rightarrow> real) \<Rightarrow> CivilianWaypoint \<Rightarrow> CivilianWaypoint \<Rightarrow> pyfloat" where
  "spec_clamped_segment_distance rnd wp1 wp2 =
     (let a = min 1 (max 0 (rnd (haversine_a (lat wp1) (lon wp1) (lat wp2) (lon wp2))))
      in case (np_sqrt a, np_sqrt (1 - a)) of
           (Number root_a, Number root_1_a) \<Rightarrow>
             Number (6371000 * (2 * arctan2 root_a root_1_a))
         | _ \<Rightarrow> NaN)"

subsection \<open>The filming advice argument\<close>

text \<open>
  \<open>filming_advice\<close> is an optional dict over the keys of the advice document, each key
  present or not; an entry of \<open>shot_sequence\<close> is a dict over \<open>shot_type\<close>,
  \<open>description\<close> and \<open>duration\<close>. A dict is true when it has at least one key.
\<close>

record shot_info =
  shot_type_key :: "string option"
  description_key :: "string option"
  duration_key :: "real option"

record filming_advice_dict =
  recommended_altitude_key :: "real option"
  recommended_speed_key :: "real option"
  camera_angles_key :: "string list option"
  shot_sequence_key :: "shot_info list option"
  lighting_advice_key :: "string option"
  weather_considerations_key :: "string option"
  framing_tips_key :: "string list option"
  tracking_strategy_key :: "string option"

definition empty_shot_info :: shot_info where
  "empty_shot_info = \<lparr> shot_type_key = None, description_key = None, duration_key = None \<rparr>"

definition shot_info_truthy :: "shot_info \<Rightarrow> bool" where
  "shot_info_truthy s \<longleftrightarrow>
     shot_type_key s \<noteq> None \<or> description_key s \<noteq> None \<or> duration_key s \<noteq> None"

definition advice_dict_truthy :: "filming_advice_dict \<Rightarrow> bool" where
  "advice_dict_truthy d \<longleftrightarrow>
     recommended_altitude_key d \<noteq> None \<or> recommended_speed_key d \<noteq> None \<or>
     camera_angles_key d \<noteq> None \<or> shot_sequence_key d \<noteq> None \<or>
     lighting_advice_key d \<noteq> None \<or> weather_considerations_key d \<noteq> None \<or>
     framing_tips_key d \<noteq> None \<or> tracking_strategy_key d \<noteq> None"

text \<open>The advice when the test \<open>if filming_advice\<close> succeeds.\<close>

definition truthy_advice :: "filming_advice_dict option \<Rightarrow> filming_advice_dict option" where
  "truthy_advice filming_advice =
     (case filming_advice of None \<Rightarrow> None
      | Some d \<Rightarrow> if advice_dict_truthy d then Some d else None)"

text \<open>\<open>filming_advice.get(key, dflt) if filming_advice else other\<close>.\<close>

definition advice_get ::
  "filming_advice_dict option \<Rightarrow> (filming_advice_dict \<Rightarrow> 'a option) \<Rightarrow> 'a \<Rightarrow> 'a \<Rightarrow> 'a" where
  "advice_get filming_advice key dflt other =
     (case truthy_advice filming_advice of None \<Rightarrow> other
      | Some d \<Rightarrow> (case key d of None \<Rightarrow> dflt | Some v \<Rightarrow> v))"

text \<open>\<open>label if filming_advice else None\<close>.\<close>

definition advice_label :: "filming_advice_dict option \<Rightarrow> string \<Rightarrow> string option" where
  "advice_label filming_advice label =
     (case truthy_advice filming_advice of None \<Rightarrow> None | Some d \<Rightarrow> Some label)"

text \<open>
  The camera angle of a film waypoint:
  \<open>angles[i % len(angles)] if filming_advice else "overhead"\<close>, where \<open>angles\<close> is
  \<open>filming_advice.get("camera_angles", ["overhead"])\<close>. The remainder by the length of
  an empty list raises \<open>ZeroDivisionError\<close>.
\<close>

definition film_camera_angle :: "filming_advice_dict option \<Rightarrow> nat \<Rightarrow> py_error + string" where
  "film_camera_angle filming_advice i =
     (case truthy_advice filming_advice of None \<Rightarrow> Inr ''overhead''
      | Some d \<Rightarrow>
          (let angles = (case camera_angles_key d of None \<Rightarrow> [''overhead''] | Some xs \<Rightarrow> xs)
           in if length angles = 0 then Inl ZeroDivisionError
              else Inr (angles ! (i mod length angles))))"

text \<open>\<open>shot_sequence[i % len(shot_sequence)] if shot_sequence else {}\<close>.\<close>

definition film_shot_info :: "filming_advice_dict option \<Rightarrow> nat \<Rightarrow> shot_info" where
  "film_shot_info filming_advice i =
     (let shot_sequence = advice_get filming_advice shot_sequence_key [] []
      in if shot_sequence \<noteq> [] then shot_sequence ! (i mod length shot_sequence)
         else empty_shot_info)"

subsection \<open>plan\_filming\_route\<close>

definition filming_start_waypoint :: "filming_advice_dict option \<Rightarrow> pos \<Rightarrow> CivilianWaypoint" where
  "filming_start_waypoint filming_advice start_pos =
     \<lparr> lat = pos_lat start_pos,
       lon = pos_lon start_pos,
       altitude = advice_get filming_advice recommended_altitude_key 30 30,
       heading = 0,
       speed = advice_get filming_advice recommended_speed_key 2 2,
       description = ''Starting position - prepare for filming'',
       shot_type = advice_label filming_advice ''establishing'',
       camera_angle = advice_label filming_advice ''overhead'',
       duration = Some 5 \<rparr>"

definition approach_waypoint ::
  "filming_advice_dict option \<Rightarrow> nat \<Rightarrow> pos \<Rightarrow> CivilianWaypoint \<Rightarrow> CivilianWaypoint" where
  "approach_waypoint filming_advice i subject_pos previous =
     \<lparr> lat = pos_lat subject_pos - 1 / 10000,
       lon = pos_lon subject_pos,
       altitude = advice_get filming_advice recommended_altitude_key 30 30,
       heading = calculate_heading \<lparr> pos_lat = lat previous, pos_lon = lon previous \<rparr> subject_pos,
       speed = advice_get filming_advice recommended_speed_key 2 2,
       description = ''Approach subject '' @ show_nat (i + 1),
       shot_type = advice_label filming_advice ''approach'',
       camera_angle = advice_label filming_advice ''side'',
       duration = Some 3 \<rparr>"

definition film_waypoint ::
  "filming_advice_dict option \<Rightarrow> nat \<Rightarrow> pos \<Rightarrow> string \<Rightarrow> CivilianWaypoint" where
  "film_waypoint filming_advice i subject_pos angle =
     (let info = film_shot_info filming_advice i
      in \<lparr> lat = pos_lat subject_pos,
           lon = pos_lon subject_pos,
           altitude = advice_get filming_advice recommended_altitude_key 30 30,
           heading = 0,
           speed = advice_get filming_advice recommended_speed_key 2 2,
           description = ''Film subject '' @ show_nat (i + 1),
           shot_type = Some (if shot_info_truthy info
                             then (case shot_type_key info of None \<Rightarrow> ''following'' | Some t \<Rightarrow> t)
                             else ''following''),
           camera_angle = Some angle,
           duration = Some (if shot_info_truthy info
                            then (case duration_key info of None \<Rightarrow> 10 | Some v \<Rightarrow> v)
                            else 10) \<rparr>)"

definition orbit_waypoint :: "filming_advice_dict option \<Rightarrow> nat \<Rightarrow> pos \<Rightarrow> CivilianWaypoint" where
  "orbit_waypoint filming_advice i subject_pos =
     (let orbit_lat = pos_lat subject_pos + 1 / 10000;
          orbit_lon = pos_lon subject_pos + 1 / 10000
      in \<lparr> lat = orbit_lat,
           lon = orbit_lon,
           altitude = advice_get filming_advice recommended_altitude_key 30 30,
           heading = calculate_heading subject_pos \<lparr> pos_lat = orbit_lat, pos_lon = orbit_lon \<rparr>,
           speed = advice_get filming_advice recommended_speed_key 2 2,
           description = ''Orbit around subject '' @ show_nat (i + 1),
           shot_type = advice_label filming_advice ''orbit'',
           camera_angle = advice_label filming_advice ''orbit'',
           duration = Some 8 \<rparr>)"

text \<open>
  The loop \<open>for i, subject_pos in enumerate(subject_positions)\<close>. \<open>with_orbit\<close> is the
  loop-invariant test \<open>len(subject_positions) > 1 or operation_type == "advertisement"\<close>;
  \<open>wps\<close> is the list built so far, which holds the start waypoint at least.
\<close>

fun filming_loop ::
  "filming_advice_dict option \<Rightarrow> bool \<Rightarrow> nat \<Rightarrow> pos list \<Rightarrow> CivilianWaypoint list \<Rightarrow>
     py_error + CivilianWaypoint list" where
  "filming_loop filming_advice with_orbit i [] wps = Inr wps"
| "filming_loop filming_advice with_orbit i (subject_pos # rest) wps =
     (let wps1 = wps @ [approach_waypoint filming_advice i subject_pos (last wps)]
      in case film_camera_angle filming_advice i of
           Inl e \<Rightarrow> Inl e
         | Inr angle \<Rightarrow>
             (let wps2 = wps1 @ [film_waypoint filming_advice i subject_pos angle];
                  wps3 = (if with_orbit
                          then wps2 @ [orbit_waypoint filming_advice i subject_pos]
                          else wps2)
              in filming_loop filming_advice with_orbit (i + 1) rest wps3))"

text \<open>\<open>wp.duration or 10.0\<close>: a missing duration and the duration 0 give 10.\<close>

definition duration_or_default :: "CivilianWaypoint \<Rightarrow> real" where
  "duration_or_default wp =
     (case duration wp of None \<Rightarrow> 10 | Some v \<Rightarrow> if v = 0 then 10 else v)"

text \<open>
  Every planning operation takes the rounding \<open>rnd\<close> of the distance computation, the
  planner and \<open>stamp\<close>, the value of \<open>int(time.time())\<close>, and returns the route with the
  planner after the call, or the exception raised. No operation changes the planner
  before it can raise.
\<close>

definition plan_filming_route ::
  "(real \<Rightarrow> real) \<Rightarrow> CivilianRoutePlanner \<Rightarrow> pos \<Rightarrow> pos list \<Rightarrow> string \<Rightarrow> filming_advice_dict option \<Rightarrow> int \<Rightarrow>
     py_error + (RoutePlan \<times> CivilianRoutePlanner)" where
  "plan_filming_route rnd self start_pos subject_positions operation_type filming_advice stamp =
     (case filming_loop filming_advice
             (1 < length subject_positions \<or> operation_type = ''advertisement'') 0
             subject_positions [filming_start_waypoint filming_advice start_pos] of
        Inl e \<Rightarrow> Inl e
      | Inr wps \<Rightarrow>
          (let route_plan =
                 \<lparr> route_id = ''filming_'' @ show_int stamp,
                   route_type = ROUTE_FILMING,
                   waypoints = wps,
                   total_distance = calculate_total_distance rnd wps,
                   estimated_duration = Number (sum_list (map duration_or_default wps)),
                   safety_score = 9 / 10,
                   optimization_tips = advice_get filming_advice framing_tips_key []
                     [''Maintain smooth camera movements'', ''Keep subjects in frame'',
                      ''Use rule of thirds for composition''],
                   route_weather_considerations =
                     advice_get filming_advice weather_considerations_key
                       ''Check weather before flight'' ''Check weather conditions'',
                   terrain_notes = [''Ensure clear line of sight'', ''Avoid obstacles''] \<rparr>
           in Inr (route_plan,
                   self\<lparr> generated_routes := generated_routes self @ [route_plan] \<rparr>)))"

subsection \<open>plan\_mustering\_route\<close>

definition plain_waypoint ::
  "real \<Rightarrow> real \<Rightarrow> real \<Rightarrow> real \<Rightarrow> real \<Rightarrow> string \<Rightarrow> CivilianWaypoint" where
  "plain_waypoint la lo alt hdg sp descr =
     \<lparr> lat = la, lon = lo, altitude = alt, heading = hdg, speed = sp, description = descr,
       shot_type = None, camera_angle = None, duration = None \<rparr>"

definition mustering_waypoints :: "pos \<Rightarrow> pos \<Rightarrow> CivilianWaypoint list" where
  "mustering_waypoints herd_location destination =
     (let approach_lat = pos_lat herd_location - 2 / 10000;
          approach_lon = pos_lon herd_location - 2 / 10000;
          mid_lat = (pos_lat herd_location + pos_lat destination) / 2;
          mid_lon = (pos_lon herd_location + pos_lon destination) / 2;
          dest_approach_lat = pos_lat destination - 1 / 10000;
          dest_approach_lon = pos_lon destination
      in [plain_waypoint approach_lat approach_lon 25
            (calculate_heading herd_location destination) 3
            ''Approach herd from side - begin gathering'',
          plain_waypoint (pos_lat herd_location) (pos_lon herd_location) 25
            (calculate_heading herd_location destination) 2
            ''Herd location - maintain safe distance'',
          plain_waypoint mid_lat mid_lon 30
            (calculate_heading herd_location destination) 3
            ''Midpoint - guide herd direction'',
          plain_waypoint dest_approach_lat dest_approach_lon 25
            (calculate_heading \<lparr> pos_lat = mid_lat, pos_lon = mid_lon \<rparr> destination) 2
            ''Approach destination - final guidance'',
          plain_waypoint (pos_lat destination) (pos_lon destination) 25 0 1
            ''Destination - herd arrival point''])"

text \<open>\<open>herd_size\<close> and \<open>terrain\<close> are accepted and not read.\<close>

definition plan_mustering_route ::
  "(real \<Rightarrow> real) \<Rightarrow> CivilianRoutePlanner \<Rightarrow> pos \<Rightarrow> pos \<Rightarrow> int option \<Rightarrow> pyval option \<Rightarrow> int \<Rightarrow>
     py_error + (RoutePlan \<times> CivilianRoutePlanner)" where
  "plan_mustering_route rnd self herd_location destination herd_size terrain stamp =
     (let wps = mustering_waypoints herd_location destination;
          total = calculate_total_distance rnd wps;
          route_plan =
            \<lparr> route_id = ''mustering_'' @ show_int stamp,
              route_type = ROUTE_MUSTERING,
              waypoints = wps,
              total_distance = total,
              estimated_duration = float_div total 3,
              safety_score = 85 / 100,
              optimization_tips =
                [''Use wide arcs to avoid stressing animals'',
                 ''Maintain consistent altitude (20-30m)'',
                 ''Work with ground crew if available'',
                 ''Monitor animal behavior and adjust approach''],
              route_weather_considerations =
                ''Early morning or late afternoon when animals are most active. Avoid extreme heat.'',
              terrain_notes =
                [''Avoid obstacles (fences, water, steep slopes)'',
                 ''Use natural terrain features to guide movement'',
                 ''Plan route to minimize animal stress''] \<rparr>
      in Inr (route_plan, self\<lparr> generated_routes := generated_routes self @ [route_plan] \<rparr>))"

subsection \<open>plan\_hunting\_route\<close>

definition hunting_waypoints :: "pos \<Rightarrow> pos \<Rightarrow> string \<Rightarrow> real option \<Rightarrow> CivilianWaypoint list" where
  "hunting_waypoints start_pos target_location animal_type wind_direction =
     (let (approach_lat, approach_lon) =
            (case wind_direction of
               Some w \<Rightarrow>
                 (let wind_rad = radians (w + 180);
                      offset_lat = 2 / 10000 * cos wind_rad;
                      offset_lon = 2 / 10000 * sin wind_rad
                  in (pos_lat target_location + offset_lat, pos_lon target_location + offset_lon))
             | None \<Rightarrow> (pos_lat target_location - 2 / 10000, pos_lon target_location))
      in [plain_waypoint (pos_lat start_pos) (pos_lon start_pos) 50 0 4
            ''Starting position - begin scouting'',
          plain_waypoint approach_lat approach_lon 40
            (calculate_heading start_pos target_location) 3
            ''Approach point - downwind side for stealth'',
          plain_waypoint (pos_lat target_location) (pos_lon target_location) 35 0 1
            (''Target location - observe '' @ animal_type)])"

definition plan_hunting_route ::
  "(real \<Rightarrow> real) \<Rightarrow> CivilianRoutePlanner \<Rightarrow> pos \<Rightarrow> pos \<Rightarrow> string \<Rightarrow> pyval option \<Rightarrow> real option \<Rightarrow> int \<Rightarrow>
     py_error + (RoutePlan \<times> CivilianRoutePlanner)" where
  "plan_hunting_route rnd self start_pos target_location animal_type terrain wind_direction stamp =
     (let wps = hunting_waypoints start_pos target_location animal_type wind_direction;
          total = calculate_total_distance rnd wps;
          route_plan =
            \<lparr> route_id = ''hunting_'' @ show_int stamp,
              route_type = ROUTE_HUNTING,
              waypoints = wps,
              total_distance = total,
              estimated_duration = float_div total 3,
              safety_score = 8 / 10,
              optimization_tips =
                [''Approach from downwind to avoid detection'',
                 ''Use terrain for cover when possible'',
                 ''Maintain legal altitude limits'',
                 ''Plan escape routes'',
                 ''Monitor wind direction and adjust approach''],
              route_weather_considerations =
                ''Early morning or late afternoon when animals are most active. Consider wind direction for approach.'',
              terrain_notes =
                [''Use terrain features (ridges, valleys) for cover'',
                 ''Avoid open areas when possible'',
                 ''Plan approach to minimize noise and visual disturbance''] \<rparr>
      in Inr (route_plan, self\<lparr> generated_routes := generated_routes self @ [route_plan] \<rparr>))"

subsection \<open>plan\_general\_route\<close>

text \<open>One pass of \<open>for i in range(1, waypoint_count)\<close>.\<close>

definition general_step ::
  "real \<Rightarrow> pos \<Rightarrow> pos \<Rightarrow> int \<Rightarrow> CivilianWaypoint list \<Rightarrow> int \<Rightarrow> CivilianWaypoint list" where
  "general_step cruise start_pos end_pos waypoint_count wps i =
     (let t = of_int i / of_int waypoint_count;
          la = pos_lat start_pos + t * (pos_lat end_pos - pos_lat start_pos);
          lo = pos_lon start_pos + t * (pos_lon end_pos - pos_lon start_pos)
      in wps @
         [plain_waypoint la lo 50
            (calculate_heading \<lparr> pos_lat = lat (last wps), pos_lon = lon (last wps) \<rparr> end_pos)
            cruise (''Waypoint '' @ show_int i)])"

text \<open>
  The end waypoint reads \<open>self.approach_speed\<close>; an object without that attribute
  raises \<open>AttributeError\<close> there, after the loop and before anything is stored.
\<close>

definition plan_general_route ::
  "(real \<Rightarrow> real) \<Rightarrow> CivilianRoutePlanner \<Rightarrow> pos \<Rightarrow> pos \<Rightarrow> int \<Rightarrow> int \<Rightarrow>
     py_error + (RoutePlan \<times> CivilianRoutePlanner)" where
  "plan_general_route rnd self start_pos end_pos waypoint_count stamp =
     (let wps0 = [plain_waypoint (pos_lat start_pos) (pos_lon start_pos) 50 0
                    (cruise_speed self) ''Starting position''];
          wps1 = foldl (general_step (cruise_speed self) start_pos end_pos waypoint_count) wps0
                   [1..waypoint_count - 1]
      in case approach_speed self of
           None \<Rightarrow> Inl AttributeError
         | Some approach \<Rightarrow>
             (let wps = wps1 @
                    [plain_waypoint (pos_lat end_pos) (pos_lon end_pos) 50 0 approach
                       ''Destination''];
                  total = calculate_total_distance rnd wps;
                  route_plan =
                    \<lparr> route_id = ''general_'' @ show_int stamp,
                      route_type = ROUTE_GENERAL,
                      waypoints = wps,
                      total_distance = total,
                      estimated_duration = float_div total (cruise_speed self),
                      safety_score = 9 / 10,
                      optimization_tips =
                        [''Maintain safe altitude'', ''Follow local regulations'',
                         ''Monitor weather conditions''],
                      route_weather_considerations = ''Check weather before flight'',
                      terrain_notes = [''Ensure clear line of sight''] \<rparr>
              in Inr (route_plan,
                      self\<lparr> generated_routes := generated_routes self @ [route_plan] \<rparr>)))"

section \<open>Subject tracker (filming\_tracker.py)\<close>

text \<open>
  A detection is a dict; the tracker reads the keys \<open>subject_id\<close>, \<open>bbox\<close> and
  \<open>confidence\<close>, each of which may be missing. A camera position is an optional dict,
  true when it is present and has a key.
\<close>

record detection =
  det_subject_id :: "string option"
  det_bbox :: "real list option"
  det_confidence :: "real option"

type_synonym position_dict = "(string \<times> real) list"

definition position_truthy :: "position_dict option \<Rightarrow> bool" where
  "position_truthy camera_position \<longleftrightarrow>
     (case camera_position of None \<Rightarrow> False | Some d \<Rightarrow> d \<noteq> [])"

record TrackedSubject =
  subject_id :: string
  position :: position_dict
  bbox :: "real list"
  confidence :: real
  frame_number :: int
  timestamp :: real
  subject_camera_angle :: string
  framing_quality :: real
  tracking_status :: string

text \<open>
  The texts of the real-time advice: \<open>FramingLow sid q\<close> is
  \<open>"Subject {sid} framing quality low ({q:.2f}). Adjust camera position to center subject."\<close>,
  \<open>SubjectLost sid\<close> is \<open>"Subject {sid} lost. Attempting to reacquire..."\<close>, and
  \<open>Composition text\<close> is the advisor's answer cut to 200 characters.
\<close>

datatype advice_message = FramingLow string real | SubjectLost string | Composition string

record TrackingAdvice =
  advice_type :: string
  message :: advice_message
  priority :: string
  advice_timestamp :: real

text \<open>
  The advisor's \<open>get_general_advice(question, context)\<close>, given the question and the
  three entries of the context (framing quality, camera angle, bounding box).
\<close>

type_synonym advisor = "string \<Rightarrow> real \<Rightarrow> string \<Rightarrow> real list \<Rightarrow> cap_result"

text \<open>
  The tracker object. Tracked subjects are mutable objects shared between the live map,
  the history and the list an update returns, so they live in \<open>store\<close>, addressed by
  their index: \<open>tracked_subjects\<close> is the dict from subject id to address in insertion
  order, \<open>tracking_history\<close> the list of addresses appended so far.
\<close>

record FilmingTracker =
  store :: "TrackedSubject list"
  tracked_subjects :: "(string \<times> nat) list"
  tracking_history :: "nat list"
  advice_history :: "TrackingAdvice list"
  running :: bool
  max_tracking_distance :: real
  framing_threshold :: real
  lost_timeout :: real
  ai_advisor :: "advisor option"

record tracker_config =
  cfg_max_tracking_distance :: "real option"
  cfg_framing_threshold :: "real option"
  cfg_lost_timeout :: "real option"

definition config_get :: "real option \<Rightarrow> real \<Rightarrow> real" where
  "config_get entry dflt = (case entry of None \<Rightarrow> dflt | Some v \<Rightarrow> v)"

definition FilmingTracker_init :: "tracker_config \<Rightarrow> advisor option \<Rightarrow> FilmingTracker" where
  "FilmingTracker_init config advisor =
     \<lparr> store = [],
       tracked_subjects = [],
       tracking_history = [],
       advice_history = [],
       running = False,
       max_tracking_distance = config_get (cfg_max_tracking_distance config) 50,
       framing_threshold = config_get (cfg_framing_threshold config) (7 / 10),
       lost_timeout = config_get (cfg_lost_timeout config) 2,
       ai_advisor = advisor \<rparr>"

definition tracker_start :: "FilmingTracker \<Rightarrow> FilmingTracker" where
  "tracker_start self = self\<lparr> running := True \<rparr>"

definition tracker_shutdown :: "FilmingTracker \<Rightarrow> FilmingTracker" where
  "tracker_shutdown self = self\<lparr> running := False \<rparr>"

text \<open>
  \<open>_calculate_framing_quality\<close>, in two parts. \<open>framing_score\<close> is the arithmetic
  on the four unpacked coordinates and the confidence, for the assumed frame of 1920 by
  1080, ending in the clamp \<open>min(1.0, max(0.0, quality))\<close>.
\<close>

definition framing_score :: "real \<Rightarrow> real \<Rightarrow> real \<Rightarrow> real \<Rightarrow> real \<Rightarrow> real" where
  "framing_score x1 y1 x2 y2 conf =
     (let center_x = (x1 + x2) / 2;
          width = x2 - x1;
          height = y2 - y1;
          frame_width = 1920;
          frame_height = 1080;
          center_score = max 0 (1 - \<bar>center_x - frame_width / 2\<bar> / (frame_width / 2));
          size_ratio = (width * height) / (frame_width * frame_height);
          size_score =
            (if 1 / 10 < size_ratio \<and> size_ratio < 1 / 2 then 1
             else if size_ratio < 5 / 100 then 3 / 10
             else if 7 / 10 < size_ratio then 1 / 2
             else 7 / 10);
          quality = center_score * (4 / 10) + size_score * (4 / 10) + conf * (2 / 10)
      in min 1 (max 0 quality))"

text \<open>
  A box of fewer than four numbers gives 0.5; the unpacking \<open>x1, y1, x2, y2 = bbox\<close> of
  a box of more than four raises \<open>ValueError\<close>. A missing box is \<open>[0, 0, 0, 0]\<close>, a
  missing confidence 0.5.
\<close>

definition calculate_framing_quality :: "detection \<Rightarrow> py_error + real" where
  "calculate_framing_quality det =
     (let box = (case det_bbox det of None \<Rightarrow> [0, 0, 0, 0] | Some b \<Rightarrow> b)
      in if length box < 4 then Inr (1 / 2)
         else (case box of
                 [x1, y1, x2, y2] \<Rightarrow>
                   Inr (framing_score x1 y1 x2 y2
                          (case det_confidence det of None \<Rightarrow> 1 / 2 | Some c \<Rightarrow> c))
               | _ \<Rightarrow> Inl ValueError))"

definition determine_camera_angle :: "detection \<Rightarrow> position_dict option \<Rightarrow> string" where
  "determine_camera_angle det camera_position =
     (if \<not> position_truthy camera_position then ''unknown''
      else (let box = (case det_bbox det of None \<Rightarrow> [0, 0, 0, 0] | Some b \<Rightarrow> b)
            in if length box < 4 then ''unknown''
               else (let y1 = box ! 1; frame_height = 1080
                     in if y1 < frame_height * (3 / 10) then ''overhead''
                        else if y1 < frame_height * (6 / 10) then ''side''
                        else ''low_angle'')))"

text \<open>
  \<open>detection.get("subject_id") or f"subject_{len(self.tracked_subjects)}"\<close>, given the
  number of live subjects: a missing and an empty id give the generated one.
\<close>

definition resolve_subject_id :: "nat \<Rightarrow> detection \<Rightarrow> string" where
  "resolve_subject_id live det =
     (case det_subject_id det of
        None \<Rightarrow> ''subject_'' @ show_nat live
      | Some s \<Rightarrow> if s = [] then ''subject_'' @ show_nat live else s)"

text \<open>
  The assignments to an existing track (\<open>detection.get("bbox", tracked.bbox)\<close> and so
  on; the position changes only for a true camera position), and the new track.
\<close>

definition refreshed_subject ::
  "int \<Rightarrow> position_dict option \<Rightarrow> real \<Rightarrow> detection \<Rightarrow> real \<Rightarrow> string \<Rightarrow> TrackedSubject \<Rightarrow>
     TrackedSubject" where
  "refreshed_subject frame camera_position current_time det quality angle tracked =
     tracked
       \<lparr> bbox := (case det_bbox det of None \<Rightarrow> bbox tracked | Some b \<Rightarrow> b),
         confidence := (case det_confidence det of None \<Rightarrow> confidence tracked | Some c \<Rightarrow> c),
         frame_number := frame,
         timestamp := current_time,
         subject_camera_angle := angle,
         framing_quality := quality,
         tracking_status := ''tracking'',
         position := (case camera_position of
                        None \<Rightarrow> position tracked
                      | Some d \<Rightarrow> if d \<noteq> [] then d else position tracked) \<rparr>"

definition new_subject ::
  "string \<Rightarrow> int \<Rightarrow> position_dict option \<Rightarrow> real \<Rightarrow> detection \<Rightarrow> real \<Rightarrow> string \<Rightarrow>
     TrackedSubject" where
  "new_subject sid frame camera_position current_time det quality angle =
     \<lparr> subject_id = sid,
       position = (case camera_position of
                     None \<Rightarrow> [(''lat'', 0), (''lon'', 0), (''alt'', 0)]
                   | Some d \<Rightarrow> if d \<noteq> [] then d else [(''lat'', 0), (''lon'', 0), (''alt'', 0)]),
       bbox = (case det_bbox det of None \<Rightarrow> [0, 0, 0, 0] | Some b \<Rightarrow> b),
       confidence = (case det_confidence det of None \<Rightarrow> 0 | Some c \<Rightarrow> c),
       frame_number = frame,
       timestamp = current_time,
       subject_camera_angle = angle,
       framing_quality = quality,
       tracking_status = ''tracking'' \<rparr>"

text \<open>
  One pass of the loop over the detections: the tracker after the pass and the address of
  the subject updated or created. The framing quality is computed before anything is
  changed, so a pass that raises leaves the tracker as the pass found it. A new subject
  is allocated at the end of the store.
\<close>

definition track_detection ::
  "int \<Rightarrow> position_dict option \<Rightarrow> real \<Rightarrow> detection \<Rightarrow> FilmingTracker \<Rightarrow>
     py_error + (FilmingTracker \<times> nat)" where
  "track_detection frame camera_position current_time det self =
     (let sid = resolve_subject_id (length (tracked_subjects self)) det
      in case calculate_framing_quality det of
           Inl e \<Rightarrow> Inl e
         | Inr quality \<Rightarrow>
             (let angle = determine_camera_angle det camera_position
              in case map_of (tracked_subjects self) sid of
                   Some a \<Rightarrow>
                     Inr (self\<lparr> store := (store self)
                                  [a := refreshed_subject frame camera_position current_time
                                          det quality angle (store self ! a)],
                                tracking_history := tracking_history self @ [a] \<rparr>, a)
                 | None \<Rightarrow>
                     Inr (self\<lparr> store := store self @
                                  [new_subject sid frame camera_position current_time det
                                     quality angle],
                                tracked_subjects := tracked_subjects self @
                                  [(sid, length (store self))],
                                tracking_history := tracking_history self @
                                  [length (store self)] \<rparr>,
                          length (store self))))"

text \<open>
  The loop over the detections, with the list \<open>updated_subjects\<close> built so far. An
  exception ends the call; what earlier passes changed stays changed.
\<close>

fun track_detections ::
  "int \<Rightarrow> position_dict option \<Rightarrow> real \<Rightarrow> detection list \<Rightarrow> FilmingTracker \<Rightarrow> nat list \<Rightarrow>
     (py_error + nat list) \<times> FilmingTracker" where
  "track_detections frame camera_position current_time [] self updated = (Inr updated, self)"
| "track_detections frame camera_position current_time (det # rest) self updated =
     (case track_detection frame camera_position current_time det self of
        Inl e \<Rightarrow> (Inl e, self)
      | Inr (self', a) \<Rightarrow>
          track_detections frame camera_position current_time rest self' (updated @ [a]))"

text \<open>
  The loop over \<open>list(self.tracked_subjects.items())\<close>, a snapshot of the live map: a
  subject whose timestamp is older than \<open>lost_timeout\<close> is marked lost, appended to
  \<open>lost_subjects\<close> and deleted from the live map.
\<close>

fun check_lost ::
  "real \<Rightarrow> (string \<times> nat) list \<Rightarrow> FilmingTracker \<Rightarrow> nat list \<Rightarrow> FilmingTracker \<times> nat list" where
  "check_lost current_time [] self lost_subjects = (self, lost_subjects)"
| "check_lost current_time ((sid, a) # items) self lost_subjects =
     (if lost_timeout self < current_time - timestamp (store self ! a)
      then check_lost current_time items
             (self\<lparr> store := (store self)[a := (store self ! a)\<lparr> tracking_status := ''lost'' \<rparr>],
                    tracked_subjects := filter (\<lambda>(k, b). k \<noteq> sid) (tracked_subjects self) \<rparr>)
             (lost_subjects @ [a])
      else check_lost current_time items self lost_subjects)"

text \<open>The advice \<open>_generate_tracking_advice\<close> gives for one tracked subject.\<close>

definition subject_advice :: "FilmingTracker \<Rightarrow> real \<Rightarrow> TrackedSubject \<Rightarrow> TrackingAdvice list" where
  "subject_advice self current_time tracked =
     (if framing_quality tracked < framing_threshold self
      then [\<lparr> advice_type = ''framing'',
               message = FramingLow (subject_id tracked) (framing_quality tracked),
               priority = ''medium'', advice_timestamp = current_time \<rparr>]
      else []) @
     (if tracking_status tracked = ''lost''
      then [\<lparr> advice_type = ''movement'', message = SubjectLost (subject_id tracked),
               priority = ''high'', advice_timestamp = current_time \<rparr>]
      else []) @
     (case ai_advisor self of
        None \<Rightarrow> []
      | Some advise \<Rightarrow>
          if framing_quality tracked < 6 / 10
          then (case advise
                       (''How should I improve framing for subject at camera angle '' @
                          subject_camera_angle tracked @ ''?'')
                       (framing_quality tracked) (subject_camera_angle tracked) (bbox tracked) of
                  Returns ai_advice \<Rightarrow>
                    [\<lparr> advice_type = ''composition'', message = Composition (take 200 ai_advice),
                       priority = ''low'', advice_timestamp = current_time \<rparr>]
                | Raises \<Rightarrow> [])
          else [])"

definition generate_tracking_advice ::
  "FilmingTracker \<Rightarrow> nat list \<Rightarrow> position_dict option \<Rightarrow> real \<Rightarrow> TrackingAdvice list" where
  "generate_tracking_advice self tracked_list camera_position current_time =
     concat (map (\<lambda>a. subject_advice self current_time (store self ! a)) tracked_list)"

text \<open>
  \<open>update_tracking\<close>. \<open>current_time\<close> is the clock read by the update and
  \<open>advice_time\<close> the later one read by \<open>_generate_tracking_advice\<close>. The result is the
  list of the addresses of the updated subjects, or the exception, with the tracker after
  the call.
\<close>

definition update_tracking ::
  "FilmingTracker \<Rightarrow> detection list \<Rightarrow> int \<Rightarrow> position_dict option \<Rightarrow> real \<Rightarrow> real \<Rightarrow>
     (py_error + nat list) \<times> FilmingTracker" where
  "update_tracking self detections frame camera_position current_time advice_time =
     (if \<not> running self then (Inr [], self)
      else case track_detections frame camera_position current_time detections self [] of
             (Inl e, self1) \<Rightarrow> (Inl e, self1)
           | (Inr updated_subjects, self1) \<Rightarrow>
               (let (self2, lost_subjects) =
                      check_lost current_time (tracked_subjects self1) self1 [];
                    self3 =
                      (if updated_subjects \<noteq> []
                       then (let advice = generate_tracking_advice self2 updated_subjects
                                            camera_position advice_time
                             in if advice \<noteq> []
                                then self2\<lparr> advice_history := advice_history self2 @ advice \<rparr>
                                else self2)
                       else self2)
                in (Inr updated_subjects, self3)))"

text \<open>
  The ids that the passes over a list of detections resolve, from the keys of the live
  map before the first pass (a pass adds its id to the map when it is new).
\<close>

fun detection_ids :: "string list \<Rightarrow> detection list \<Rightarrow> string list" where
  "detection_ids live [] = []"
| "detection_ids live (det # rest) =
     (let sid = resolve_subject_id (length live) det
      in sid # detection_ids (if sid \<in> set live then live else live @ [sid]) rest)"

text \<open>
  The states the tracker's operations produce: the keys and the addresses of the live map
  are distinct, every address is allocated, every live subject is in the history and
  carries the id it is stored under.
\<close>

definition tracker_inv :: "FilmingTracker \<Rightarrow> bool" where
  "tracker_inv self \<longleftrightarrow>
     distinct (map fst (tracked_subjects self)) \<and>
     distinct (map snd (tracked_subjects self)) \<and>
     list_all (\<lambda>(sid, a). a < length (store self) \<and> a \<in> set (tracking_history self) \<and>
                  subject_id (store self ! a) = sid) (tracked_subjects self) \<and>
     list_all (\<lambda>a. a < length (store self)) (tracking_history self)"

section \<open>Example inputs\<close>

text \<open>
  A well-framed detection (a box centred in the frame that covers a quarter of it), a
  tracker started with the default configuration and no advisor, and that tracker after
  it has seen the subject \<open>s1\<close> in frame 1 at time 0.
\<close>

text \<open>
  Two antipodal points, and a rounding that errs upwards by one unit in the last place
  of 1, which is 2 to the power -52: the error of the double computation of the
  haversine term at these two points, where it yields 1.0000000000000002 for the exact
  value 1.
\<close>

definition point_8_0 :: CivilianWaypoint where
  "point_8_0 = plain_waypoint 8 0 50 0 5 ''(8, 0)''"

definition point_m8_180 :: CivilianWaypoint where
  "point_m8_180 = plain_waypoint (- 8) 180 50 0 5 ''(-8, 180)''"

definition double_rounding_up :: "real \<Rightarrow> real" where
  "double_rounding_up x = x + 1 / 2 ^ 52"

definition example_detection :: "string \<Rightarrow> detection" where
  "example_detection sid =
     \<lparr> det_subject_id = Some sid, det_bbox = Some [480, 270, 1440, 810],
       det_confidence = Some (9 / 10) \<rparr>"

definition example_tracker :: FilmingTracker where
  "example_tracker =
     tracker_start (FilmingTracker_init
       \<lparr> cfg_max_tracking_distance = None, cfg_framing_threshold = None,
         cfg_lost_timeout = None \<rparr> None)"

definition tracking_s1 :: FilmingTracker where
  "tracking_s1 = snd (update_tracking example_tracker [example_detection ''s1''] 1 None 0 0)"

section \<open>Properties of the advisory generator\<close>

lemma wedding_default_fields:
  "recommended_altitude wedding_default = PNum 25"
  "recommended_speed wedding_default = PNum 2"
  "\<exists>shots. shot_sequence wedding_default = PList shots \<and> length shots = 4"
  by (simp_all add: wedding_default_def)

lemma get_filming_advice_absent:
  "get_filming_advice None loads FILMING_WEDDING location subject_info weather =
     Inr wedding_default"
  by (simp add: get_filming_advice_def get_filming_advice_default_def)

lemma get_filming_advice_unparsable:
  assumes "cap (''Provide expert filming advice for a filming_wedding operation at this location.'')
             (PDict [(''operation_type'', PStr ''filming_wedding''), (''location'', location),
                     (''subject_info'', or_empty_dict subject_info),
                     (''weather'', or_empty_dict weather)]) = Returns advice_text"
    and "loads advice_text = None"
  shows "get_filming_advice (Some cap) loads FILMING_WEDDING location subject_info weather =
           Inr wedding_default"
  using assms
  by (simp add: get_filming_advice_def get_filming_advice_from_ai_def
      get_filming_advice_default_def)

text \<open>
  Claim C1. For the kind \<open>FILMING_WEDDING\<close>, \<open>get_filming_advice\<close> returns the same
  wedding default, with altitude 25.0, speed 2.0 and a shot sequence of exactly four
  entries, both when no capability is configured and when the configured capability
  returns a text that \<open>json.loads\<close> cannot parse; in neither case does an exception
  reach the caller (the result is \<open>Inr\<close>).
\<close>

theorem get_filming_advice_wedding_fallback:
  assumes "claude_integration = None \<or>
           (\<exists>cap. claude_integration = Some cap \<and>
              (\<forall>question context. \<exists>advice_text.
                 cap question context = Returns advice_text \<and> loads advice_text = None))"
  shows "\<exists>advice shots.
           get_filming_advice claude_integration loads FILMING_WEDDING location subject_info
             weather = Inr advice \<and>
           advice = wedding_default \<and>
           recommended_altitude advice = PNum 25 \<and>
           recommended_speed advice = PNum 2 \<and>
           shot_sequence advice = PList shots \<and> length shots = 4"
proof -
  obtain shots where shots: "shot_sequence wedding_default = PList shots" "length shots = 4"
    using wedding_default_fields(3) by blast
  have "get_filming_advice claude_integration loads FILMING_WEDDING location subject_info
          weather = Inr wedding_default"
    using assms
  proof
    assume "claude_integration = None"
    then show ?thesis by (simp add: get_filming_advice_absent)
  next
    assume "\<exists>cap. claude_integration = Some cap \<and>
              (\<forall>question context. \<exists>advice_text.
                 cap question context = Returns advice_text \<and> loads advice_text = None)"
    then obtain cap where cap: "claude_integration = Some cap"
      and un: "\<forall>question context. \<exists>advice_text.
                 cap question context = Returns advice_text \<and> loads advice_text = None"
      by blast
    obtain advice_text where
      "cap (''Provide expert filming advice for a filming_wedding operation at this location.'')
         (PDict [(''operation_type'', PStr ''filming_wedding''), (''location'', location),
                 (''subject_info'', or_empty_dict subject_info),
                 (''weather'', or_empty_dict weather)]) = Returns advice_text"
      "loads advice_text = None"
      using un by blast
    then show ?thesis
      unfolding cap by (rule get_filming_advice_unparsable)
  qed
  then show ?thesis
    using shots wedding_default_fields(1,2) by simp
qed

theorem get_filming_advice_wedding_fallback_witness:
  "get_filming_advice (Some (\<lambda>question context. Returns ''not json''))
     (\<lambda>text. if text = ''not json'' then None else Some PNone)
     FILMING_WEDDING (PDict [(''lat'', PNum 0), (''lon'', PNum 0)]) None None =
   get_filming_advice None
     (\<lambda>text. if text = ''not json'' then None else Some PNone)
     FILMING_WEDDING (PDict [(''lat'', PNum 0), (''lon'', PNum 0)]) None None
   \<and> recommended_altitude wedding_default = PNum 25"
proof -
  let ?loads = "\<lambda>text. if text = ''not json'' then None else Some PNone"
  let ?cap = "\<lambda>question context. Returns ''not json''"
  let ?loc = "PDict [(''lat'', PNum 0), (''lon'', PNum 0)]"
  have a: "(Some ?cap :: capability option) = None \<or>
           (\<exists>cap. Some ?cap = Some cap \<and>
              (\<forall>question context. \<exists>advice_text.
                 cap question context = Returns advice_text \<and> ?loads advice_text = None))"
    by simp
  have b: "(None :: capability option) = None \<or>
           (\<exists>cap. None = Some cap \<and>
              (\<forall>question context. \<exists>advice_text.
                 cap question context = Returns advice_text \<and> ?loads advice_text = None))"
    by simp
  from get_filming_advice_wedding_fallback [OF a, of ?loc None None]
    get_filming_advice_wedding_fallback [OF b, of ?loc None None]
  show ?thesis by (auto simp: wedding_default_fields)
qed

section \<open>Properties of the geodesy utilities\<close>

lemma py_mod_range:
  assumes "0 < m"
  shows "0 \<le> py_mod x m \<and> py_mod x m < m"
proof -
  have lower: "of_int \<lfloor>x / m\<rfloor> * m \<le> x"
    using assms by (rule floor_divide_lower)
  have upper: "x < (of_int \<lfloor>x / m\<rfloor> + 1) * m"
    using assms by (rule floor_divide_upper)
  from lower upper show ?thesis
    by (simp add: py_mod_def algebra_simps)
qed

text \<open>Every heading is normalised to \<open>[0, 360)\<close>.\<close>

lemma calculate_heading_range:
  "0 \<le> calculate_heading p q \<and> calculate_heading p q < 360"
  using py_mod_range [of 360] by (simp add: calculate_heading_def Let_def)

lemma calculate_heading_same: "calculate_heading p p = 0"
  by (simp add: calculate_heading_def Let_def radians_def degrees_def arctan2_def py_mod_def)

lemma sin_half_squared: "(sin (x / 2))\<^sup>2 = (1 - cos x) / (2::real)"
  using cos_double_sin [of "x / 2"] by simp

lemma sin_half_diff_squared: "(sin ((u - v) / 2))\<^sup>2 = (sin ((v - u) / 2))\<^sup>2" for u v :: real
proof -
  have "(u - v) / 2 = - ((v - u) / 2)" by argo
  then have "sin ((u - v) / 2) = - sin ((v - u) / 2)" by (metis sin_minus)
  then show ?thesis by simp
qed

lemma haversine_a_sym: "haversine_a la1 lo1 la2 lo2 = haversine_a la2 lo2 la1 lo1"
proof -
  have r: "radians (lo2 - lo1) = radians lo2 - radians lo1"
    "radians (lo1 - lo2) = radians lo1 - radians lo2"
    by (simp_all add: radians_def diff_divide_distrib left_diff_distrib)
  show ?thesis
    unfolding haversine_a_def Let_def r
    using sin_half_diff_squared [of "radians la2" "radians la1"]
      sin_half_diff_squared [of "radians lo2" "radians lo1"]
    by (simp add: mult.commute)
qed

lemma haversine_a_same: "haversine_a la lo la lo = 0"
  by (simp add: haversine_a_def Let_def radians_def)

text \<open>
  In exact arithmetic the haversine term lies in \<open>[0, 1]\<close> whatever the coordinates
  are. The bound is a fact of the reals, not of the doubles: the computed term
  \<open>rnd a\<close> can leave the interval.
\<close>

lemma haversine_a_convex:
  "haversine_a la1 lo1 la2 lo2 =
     (1 - (sin (radians (lo2 - lo1) / 2))\<^sup>2) * ((1 - cos (radians la2 - radians la1)) / 2) +
     (sin (radians (lo2 - lo1) / 2))\<^sup>2 * ((1 + cos (radians la2 + radians la1)) / 2)"
  unfolding haversine_a_def Let_def sin_half_squared [of "radians la2 - radians la1"]
  by (simp add: cos_diff cos_add field_simps)

lemma convex_unit:
  fixes h A B :: real
  assumes "0 \<le> h" "h \<le> 1" "0 \<le> A" "A \<le> 1" "0 \<le> B" "B \<le> 1"
  shows "0 \<le> (1 - h) * A + h * B \<and> (1 - h) * A + h * B \<le> 1"
proof -
  have "0 \<le> (1 - h) * A" "0 \<le> h * B" using assms by simp_all
  moreover have "(1 - h) * A \<le> (1 - h) * 1" using assms by (intro mult_left_mono) simp_all
  moreover have "h * B \<le> h * 1" using assms by (intro mult_left_mono) simp_all
  ultimately show ?thesis by simp
qed

lemma haversine_a_bounds:
  "0 \<le> haversine_a la1 lo1 la2 lo2 \<and> haversine_a la1 lo1 la2 lo2 \<le> 1"
proof -
  let ?h = "(sin (radians (lo2 - lo1) / 2))\<^sup>2"
  let ?A = "(1 - cos (radians la2 - radians la1)) / 2"
  let ?B = "(1 + cos (radians la2 + radians la1)) / 2"
  have h: "0 \<le> ?h" "?h \<le> 1"
    by (simp_all add: abs_square_le_1)
  have A: "0 \<le> ?A" "?A \<le> 1"
    using cos_le_one [of "radians la2 - radians la1"]
      cos_ge_minus_one [of "radians la2 - radians la1"]
    by simp_all
  have half: "\<And>c::real. - 1 \<le> c \<Longrightarrow> c \<le> 1 \<Longrightarrow> 0 \<le> (1 + c) / 2 \<and> (1 + c) / 2 \<le> 1"
    by simp
  have "0 \<le> ?B \<and> ?B \<le> 1"
    by (rule half) (rule cos_ge_minus_one, rule cos_le_one)
  then have B1: "0 \<le> ?B" and B2: "?B \<le> 1"
    by blast+
  show ?thesis
    unfolding haversine_a_convex using convex_unit [OF h A B1 B2] .
qed

text \<open>The distance is NaN exactly when the computed term has left \<open>[0, 1]\<close>.\<close>

lemma segment_distance_nan_iff:
  "segment_distance rnd wp1 wp2 = NaN \<longleftrightarrow>
     rnd (haversine_a (lat wp1) (lon wp1) (lat wp2) (lon wp2)) < 0 \<or>
     1 < rnd (haversine_a (lat wp1) (lon wp1) (lat wp2) (lon wp2))"
  by (auto simp: segment_distance_def np_sqrt_def Let_def)

lemma segment_distance_cases:
  "segment_distance rnd wp1 wp2 = NaN \<or> (\<exists>d. segment_distance rnd wp1 wp2 = Number d)"
  by (simp add: segment_distance_def np_sqrt_def Let_def)

lemma segment_distance_exact_defined:
  "\<exists>d. segment_distance (\<lambda>x. x) wp1 wp2 = Number d"
proof -
  have "segment_distance (\<lambda>x. x) wp1 wp2 \<noteq> NaN"
    using haversine_a_bounds [of "lat wp1" "lon wp1" "lat wp2" "lon wp2"]
    by (simp add: segment_distance_nan_iff)
  then show ?thesis
    using segment_distance_cases [of "\<lambda>x. x" wp1 wp2] by simp
qed

text \<open>With the clamp that the specification asks for, no rounding makes a NaN.\<close>

lemma spec_clamped_segment_distance_defined:
  "\<exists>d. spec_clamped_segment_distance rnd wp1 wp2 = Number d"
  by (simp add: spec_clamped_segment_distance_def np_sqrt_def Let_def)

lemma segment_distance_sym: "segment_distance rnd a b = segment_distance rnd b a"
  unfolding segment_distance_def
  using haversine_a_sym [of "lat a" "lon a" "lat b" "lon b"] by simp

lemma segment_distance_same:
  "rnd 0 = 0 \<Longrightarrow> segment_distance rnd a a = Number 0"
  by (simp add: segment_distance_def haversine_a_same np_sqrt_def arctan2_def)

lemma calculate_total_distance_two:
  "calculate_total_distance rnd [a, b] = segment_distance rnd a b"
  using segment_distance_cases [of rnd a b]
  by (auto simp: calculate_total_distance_def)

text \<open>
  The relations of the specification that the source does satisfy: the distance is
  symmetric wherever it is a number, it is 0 from a point to itself (the double
  computation is exact there: the term is 0), the length of a route of no or one
  waypoint is 0, and the bearing of a point to itself is 0, a number in \<open>[0, 360)\<close>.
\<close>

lemma geodesy_relations_where_defined:
  "float_eq (calculate_total_distance rnd [a, b]) (calculate_total_distance rnd [b, a]) \<longleftrightarrow>
     calculate_total_distance rnd [a, b] \<noteq> NaN"
  "rnd 0 = 0 \<Longrightarrow> calculate_total_distance rnd [a, a] = Number 0"
  "calculate_total_distance rnd [] = Number 0"
  "calculate_total_distance rnd [a] = Number 0"
  "calculate_heading p p = 0 \<and> 0 \<le> calculate_heading p p \<and> calculate_heading p p < 360"
proof -
  show "float_eq (calculate_total_distance rnd [a, b]) (calculate_total_distance rnd [b, a]) \<longleftrightarrow>
     calculate_total_distance rnd [a, b] \<noteq> NaN"
    unfolding calculate_total_distance_two segment_distance_sym [of rnd b a]
    using segment_distance_cases [of rnd a b] by auto
  show "rnd 0 = 0 \<Longrightarrow> calculate_total_distance rnd [a, a] = Number 0"
    by (simp only: calculate_total_distance_two segment_distance_same)
  show "calculate_total_distance rnd [] = Number 0" "calculate_total_distance rnd [a] = Number 0"
    by (simp_all add: calculate_total_distance_def)
  show "calculate_heading p p = 0 \<and> 0 \<le> calculate_heading p p \<and> calculate_heading p p < 360"
    by (simp add: calculate_heading_same)
qed

text \<open>
  The two example points are antipodal: in exact arithmetic their haversine term is 1.
\<close>

lemma haversine_a_antipodal: "haversine_a 8 0 (- 8) 180 = 1"
proof -
  have r: "radians (- 8) = - radians 8" "radians (180 - 0) = pi"
    by (simp_all add: radians_def)
  have half: "(- radians 8 - radians 8) / 2 = - radians 8" by simp
  have unit: "(sin (radians 8))\<^sup>2 + cos (radians 8) * cos (radians 8) = 1"
    using sin_cos_squared_add [of "radians 8"] by (simp add: power2_eq_square)
  show ?thesis
    unfolding haversine_a_def Let_def r half
    using unit by simp
qed

lemma example_segment_nan:
  "segment_distance double_rounding_up point_8_0 point_m8_180 = NaN"
  "segment_distance double_rounding_up point_m8_180 point_8_0 = NaN"
proof -
  have "1 < double_rounding_up (haversine_a 8 0 (- 8) 180)"
    by (simp add: haversine_a_antipodal double_rounding_up_def)
  then show "segment_distance double_rounding_up point_8_0 point_m8_180 = NaN"
    by (simp add: segment_distance_nan_iff point_8_0_def point_m8_180_def plain_waypoint_def)
  then show "segment_distance double_rounding_up point_m8_180 point_8_0 = NaN"
    by (simp only: segment_distance_sym [of double_rounding_up point_m8_180 point_8_0])
qed

text \<open>
  Claim C7 fails on the source. \<open>_calculate_total_distance\<close> does not clamp the
  haversine term. At the antipodal points (8, 0) and (-8, 180) the exact term is 1 and
  the double computation yields 1.0000000000000002; \<open>np.sqrt(1-a)\<close> is then NaN, and so
  are the segment and the length of the route. With the clamp that the specification
  demands the same computation yields a number.
\<close>

theorem calculate_total_distance_nan_unclamped:
  "haversine_a 8 0 (- 8) 180 = 1 \<and>
   double_rounding_up 1 = 1 + 1 / 2 ^ 52 \<and>
   np_sqrt (1 - double_rounding_up 1) = NaN \<and>
   segment_distance double_rounding_up point_8_0 point_m8_180 = NaN \<and>
   calculate_total_distance double_rounding_up [point_8_0, point_m8_180] = NaN \<and>
   (\<exists>d. spec_clamped_segment_distance double_rounding_up point_8_0 point_m8_180 = Number d)"
  using haversine_a_antipodal example_segment_nan(1)
    spec_clamped_segment_distance_defined [of double_rounding_up point_8_0 point_m8_180]
  by (simp add: calculate_total_distance_two double_rounding_up_def np_sqrt_def)

text \<open>
  Claim C8 fails on the source in its first relation, by the defect of C7. At the same
  two points the distance is NaN in either direction, and NaN is not equal to NaN: the
  comparison \<open>distance(a, b) == distance(b, a)\<close> is false.
\<close>

theorem distance_symmetry_fails_at_nan:
  "calculate_total_distance double_rounding_up [point_8_0, point_m8_180] = NaN \<and>
   calculate_total_distance double_rounding_up [point_m8_180, point_8_0] = NaN \<and>
   \<not> float_eq (calculate_total_distance double_rounding_up [point_8_0, point_m8_180])
               (calculate_total_distance double_rounding_up [point_m8_180, point_8_0])"
  by (simp add: calculate_total_distance_two example_segment_nan)

section \<open>Properties of the route planner\<close>

lemma plan_hunting_route_returns:
  "\<exists>route.
     plan_hunting_route rnd self start_pos target_location animal_type terrain wind_direction stamp =
       Inr (route, self\<lparr> generated_routes := generated_routes self @ [route] \<rparr>) \<and>
     length (waypoints route) = 3"
  by (simp add: plan_hunting_route_def Let_def hunting_waypoints_def
      split: option.splits prod.splits)

text \<open>
  Claim C2, as the source has it. For every herd location and destination,
  \<open>plan_mustering_route\<close> returns a route of exactly five waypoints (approach, herd,
  midpoint, destination approach, destination), stored in the history; the last one is
  at the destination and its speed 1.0 is the strict minimum of the speeds 3, 2, 3, 2, 1.
\<close>

theorem plan_mustering_route_five_waypoints:
  "\<exists>route.
     plan_mustering_route rnd self herd_location destination herd_size terrain stamp =
       Inr (route, self\<lparr> generated_routes := generated_routes self @ [route] \<rparr>) \<and>
     length (waypoints route) = 5 \<and>
     lat (last (waypoints route)) = pos_lat destination \<and>
     lon (last (waypoints route)) = pos_lon destination \<and>
     speed (last (waypoints route)) = 1 \<and>
     map speed (waypoints route) = [3, 2, 3, 2, 1]"
  by (simp add: plan_mustering_route_def Let_def mustering_waypoints_def plain_waypoint_def)

text \<open>
  The claim as stated asks for six waypoints. The call of the specification,
  \<open>plan_mustering_route({lat: 0, lon: 0}, {lat: 0, lon: 0.01}, herd_size=50)\<close>, returns
  five.
\<close>

theorem plan_mustering_route_not_six:
  "\<exists>route self'.
     plan_mustering_route (\<lambda>x. x) (CivilianRoutePlanner_init None) \<lparr> pos_lat = 0, pos_lon = 0 \<rparr>
       \<lparr> pos_lat = 0, pos_lon = 1 / 100 \<rparr> (Some 50) None 0 = Inr (route, self') \<and>
     length (waypoints route) = 5 \<and> length (waypoints route) \<noteq> 6"
  by (simp add: plan_mustering_route_def Let_def mustering_waypoints_def)

text \<open>
  No planning operation assigns \<open>approach_speed\<close>, so a planner that lacks the
  attribute keeps lacking it, and \<open>plan_general_route\<close> raises on it.
\<close>

lemma approach_speed_kept:
  "plan_mustering_route rnd self herd_location destination herd_size terrain stamp =
     Inr (route, self') \<Longrightarrow> approach_speed self' = approach_speed self"
  "plan_hunting_route rnd self start_pos target_location animal_type terrain wind_direction stamp =
     Inr (route, self') \<Longrightarrow> approach_speed self' = approach_speed self"
  "plan_filming_route rnd self start_pos subject_positions operation_type filming_advice stamp =
     Inr (route, self') \<Longrightarrow> approach_speed self' = approach_speed self"
  by (auto simp: plan_mustering_route_def plan_hunting_route_def plan_filming_route_def Let_def
      split: sum.splits)

lemma plan_general_route_no_attribute:
  "approach_speed self = None \<Longrightarrow>
   plan_general_route rnd self start_pos end_pos waypoint_count stamp = Inl AttributeError"
  by (simp add: plan_general_route_def Let_def)

text \<open>
  Claim C3 fails on the source. \<open>__init__\<close> never assigns \<open>approach_speed\<close>, so on a
  planner as \<open>__init__\<close> leaves it \<open>plan_general_route\<close> raises \<open>AttributeError\<close> for
  every start, end and waypoint count, and returns no route.
\<close>

theorem plan_general_route_attribute_error:
  "plan_general_route rnd (CivilianRoutePlanner_init planning) start_pos end_pos waypoint_count
     stamp = Inl AttributeError"
  by (simp add: plan_general_route_def CivilianRoutePlanner_init_def Let_def)

lemma show_nat_1: "show_nat (Suc 0) = ''1''"
  by code_simp

lemma film_camera_angle_returns:
  assumes "\<forall>d. truthy_advice filming_advice = Some d \<longrightarrow> camera_angles_key d \<noteq> Some []"
  shows "\<exists>angle. film_camera_angle filming_advice j = Inr angle"
  using assms
  by (auto simp: film_camera_angle_def Let_def split: option.splits)

lemma filming_loop_single:
  assumes "film_camera_angle filming_advice i = Inr angle"
  shows "filming_loop filming_advice False i [subject_pos] wps =
           Inr (wps @ [approach_waypoint filming_advice i subject_pos (last wps),
                       film_waypoint filming_advice i subject_pos angle])"
  using assms by (simp add: Let_def)

lemma description_waypoints [simp]:
  "description (approach_waypoint fa i s prev) = ''Approach subject '' @ show_nat (i + 1)"
  "description (film_waypoint fa i s angle) = ''Film subject '' @ show_nat (i + 1)"
  "description (orbit_waypoint fa i s) = ''Orbit around subject '' @ show_nat (i + 1)"
  "description (filming_start_waypoint fa start_pos) = ''Starting position - prepare for filming''"
  by (simp_all add: approach_waypoint_def film_waypoint_def orbit_waypoint_def
      filming_start_waypoint_def Let_def)

lemma position_waypoints [simp]:
  "lat (film_waypoint fa i s angle) = pos_lat s"
  "lon (film_waypoint fa i s angle) = pos_lon s"
  "lat (orbit_waypoint fa i s) = pos_lat s + 1 / 10000"
  "lon (orbit_waypoint fa i s) = pos_lon s + 1 / 10000"
  "lat (approach_waypoint fa i s prev) = pos_lat s - 1 / 10000"
  "lon (approach_waypoint fa i s prev) = pos_lon s"
  by (simp_all add: approach_waypoint_def film_waypoint_def orbit_waypoint_def Let_def)

lemma filming_loop_orbit:
  assumes ok: "\<forall>j. \<exists>angle. film_camera_angle filming_advice j = Inr angle"
  shows "\<exists>new. filming_loop filming_advice True i subjects wps = Inr (wps @ new) \<and>
           length new = 3 * length subjects \<and>
           (\<forall>k < length subjects.
              description (new ! (3 * k)) = ''Approach subject '' @ show_nat (i + k + 1) \<and>
              description (new ! (3 * k + 1)) = ''Film subject '' @ show_nat (i + k + 1) \<and>
              lat (new ! (3 * k + 1)) = pos_lat (subjects ! k) \<and>
              lon (new ! (3 * k + 1)) = pos_lon (subjects ! k) \<and>
              description (new ! (3 * k + 2)) = ''Orbit around subject '' @ show_nat (i + k + 1) \<and>
              lat (new ! (3 * k + 2)) = pos_lat (subjects ! k) + 1 / 10000 \<and>
              lon (new ! (3 * k + 2)) = pos_lon (subjects ! k) + 1 / 10000)"
proof (induction subjects arbitrary: i wps)
  case Nil
  show ?case by simp
next
  case (Cons s rest)
  obtain angle where angle: "film_camera_angle filming_advice i = Inr angle"
    using ok by blast
  let ?A = "approach_waypoint filming_advice i s (last wps)"
  let ?F = "film_waypoint filming_advice i s angle"
  let ?O = "orbit_waypoint filming_advice i s"
  have step: "filming_loop filming_advice True i (s # rest) wps =
                filming_loop filming_advice True (i + 1) rest (wps @ [?A, ?F, ?O])"
    using angle by (simp add: Let_def)
  obtain new' where new': "filming_loop filming_advice True (i + 1) rest (wps @ [?A, ?F, ?O]) =
        Inr ((wps @ [?A, ?F, ?O]) @ new')"
    and len: "length new' = 3 * length rest"
    and nth: "\<forall>k < length rest.
              description (new' ! (3 * k)) = ''Approach subject '' @ show_nat (i + 1 + k + 1) \<and>
              description (new' ! (3 * k + 1)) = ''Film subject '' @ show_nat (i + 1 + k + 1) \<and>
              lat (new' ! (3 * k + 1)) = pos_lat (rest ! k) \<and>
              lon (new' ! (3 * k + 1)) = pos_lon (rest ! k) \<and>
              description (new' ! (3 * k + 2)) = ''Orbit around subject '' @ show_nat (i + 1 + k + 1) \<and>
              lat (new' ! (3 * k + 2)) = pos_lat (rest ! k) + 1 / 10000 \<and>
              lon (new' ! (3 * k + 2)) = pos_lon (rest ! k) + 1 / 10000"
    using Cons.IH [of "i + 1" "wps @ [?A, ?F, ?O]"] by blast
  let ?new = "?A # ?F # ?O # new'"
  have res: "filming_loop filming_advice True i (s # rest) wps = Inr (wps @ ?new)"
    unfolding step new' by simp
  have len': "length ?new = 3 * length (s # rest)"
    using len by simp
  have "\<forall>k < length (s # rest).
              description (?new ! (3 * k)) = ''Approach subject '' @ show_nat (i + k + 1) \<and>
              description (?new ! (3 * k + 1)) = ''Film subject '' @ show_nat (i + k + 1) \<and>
              lat (?new ! (3 * k + 1)) = pos_lat ((s # rest) ! k) \<and>
              lon (?new ! (3 * k + 1)) = pos_lon ((s # rest) ! k) \<and>
              description (?new ! (3 * k + 2)) = ''Orbit around subject '' @ show_nat (i + k + 1) \<and>
              lat (?new ! (3 * k + 2)) = pos_lat ((s # rest) ! k) + 1 / 10000 \<and>
              lon (?new ! (3 * k + 2)) = pos_lon ((s # rest) ! k) + 1 / 10000"
  proof (intro allI impI)
    fix k
    assume k: "k < length (s # rest)"
    show "description (?new ! (3 * k)) = ''Approach subject '' @ show_nat (i + k + 1) \<and>
              description (?new ! (3 * k + 1)) = ''Film subject '' @ show_nat (i + k + 1) \<and>
              lat (?new ! (3 * k + 1)) = pos_lat ((s # rest) ! k) \<and>
              lon (?new ! (3 * k + 1)) = pos_lon ((s # rest) ! k) \<and>
              description (?new ! (3 * k + 2)) = ''Orbit around subject '' @ show_nat (i + k + 1) \<and>
              lat (?new ! (3 * k + 2)) = pos_lat ((s # rest) ! k) + 1 / 10000 \<and>
              lon (?new ! (3 * k + 2)) = pos_lon ((s # rest) ! k) + 1 / 10000"
    proof (cases k)
      case 0
      then show ?thesis by simp
    next
      case (Suc k')
      then have k': "k' < length rest" using k by simp
      have idx: "3 * k = Suc (Suc (Suc (3 * k')))" using Suc by simp
      show ?thesis
        using nth [rule_format, OF k'] unfolding idx Suc by simp
    qed
  qed
  with res len' show ?case by blast
qed


text \<open>
  The shape of a filming route, for an advice argument that is absent, empty, or any
  advice whose list of camera angles is not empty. With one subject position and a kind
  other than \<open>advertisement\<close> the route has exactly the three waypoints start, approach
  and film, and no orbit. With two or more subject positions the route has the start and
  three waypoints for each subject, and the waypoint right after the film waypoint of a
  subject (at the subject's position) is its orbit waypoint (offset by 0.0001 degrees in
  both coordinates).
\<close>

lemma plan_filming_route_waypoints:
  assumes "\<forall>d. truthy_advice filming_advice = Some d \<longrightarrow> camera_angles_key d \<noteq> Some []"
  shows "\<exists>route.
           plan_filming_route rnd self start_pos subject_positions operation_type filming_advice
             stamp = Inr (route, self\<lparr> generated_routes := generated_routes self @ [route] \<rparr>) \<and>
           (length subject_positions = 1 \<and> operation_type \<noteq> ''advertisement'' \<longrightarrow>
              length (waypoints route) = 3 \<and>
              map description (waypoints route) =
                [''Starting position - prepare for filming'', ''Approach subject 1'',
                 ''Film subject 1'']) \<and>
           (1 < length subject_positions \<longrightarrow>
              length (waypoints route) = 1 + 3 * length subject_positions \<and>
              (\<forall>k < length subject_positions.
                 description (waypoints route ! (3 * k + 2)) =
                   ''Film subject '' @ show_nat (k + 1) \<and>
                 lat (waypoints route ! (3 * k + 2)) = pos_lat (subject_positions ! k) \<and>
                 lon (waypoints route ! (3 * k + 2)) = pos_lon (subject_positions ! k) \<and>
                 description (waypoints route ! (3 * k + 3)) =
                   ''Orbit around subject '' @ show_nat (k + 1) \<and>
                 lat (waypoints route ! (3 * k + 3)) =
                   pos_lat (subject_positions ! k) + 1 / 10000 \<and>
                 lon (waypoints route ! (3 * k + 3)) =
                   pos_lon (subject_positions ! k) + 1 / 10000))"
proof -
  have ok: "\<forall>j. \<exists>angle. film_camera_angle filming_advice j = Inr angle"
    using film_camera_angle_returns [OF assms] by blast
  let ?start = "filming_start_waypoint filming_advice start_pos"
  let ?orbit = "1 < length subject_positions \<or> operation_type = ''advertisement''"
  show ?thesis
  proof (cases "1 < length subject_positions")
    case True
    obtain new where loop: "filming_loop filming_advice True 0 subject_positions [?start] =
          Inr ([?start] @ new)"
      and len: "length new = 3 * length subject_positions"
      and nth: "\<forall>k < length subject_positions.
              description (new ! (3 * k)) = ''Approach subject '' @ show_nat (0 + k + 1) \<and>
              description (new ! (3 * k + 1)) = ''Film subject '' @ show_nat (0 + k + 1) \<and>
              lat (new ! (3 * k + 1)) = pos_lat (subject_positions ! k) \<and>
              lon (new ! (3 * k + 1)) = pos_lon (subject_positions ! k) \<and>
              description (new ! (3 * k + 2)) = ''Orbit around subject '' @ show_nat (0 + k + 1) \<and>
              lat (new ! (3 * k + 2)) = pos_lat (subject_positions ! k) + 1 / 10000 \<and>
              lon (new ! (3 * k + 2)) = pos_lon (subject_positions ! k) + 1 / 10000"
      using filming_loop_orbit [OF ok, of 0 subject_positions "[?start]"] by blast
    have idx: "\<And>k. 3 * k + 3 = Suc (3 * k + 2)" by simp
    show ?thesis
      using True loop len nth
      by (simp add: plan_filming_route_def Let_def idx)
  next
    case False
    show ?thesis
    proof (cases "length subject_positions = 1 \<and> operation_type \<noteq> ''advertisement''")
      case True
      then obtain s where s: "subject_positions = [s]"
        by (auto simp: length_Suc_conv)
      obtain angle where angle: "film_camera_angle filming_advice 0 = Inr angle"
        using ok by blast
      show ?thesis
        using True s filming_loop_single [OF angle, of s "[?start]"]
        by (simp add: plan_filming_route_def Let_def show_nat_1)
    next
      case other: False
      have "\<exists>wps. filming_loop filming_advice ?orbit 0 subject_positions [?start] = Inr wps"
      proof (cases subject_positions)
        case Nil
        then show ?thesis by simp
      next
        case (Cons s rest)
        with False have rest: "rest = []" by simp
        obtain angle where "film_camera_angle filming_advice 0 = Inr angle"
          using ok by blast
        then show ?thesis using Cons rest by (simp add: Let_def)
      qed
      then obtain wps where
        "filming_loop filming_advice ?orbit 0 subject_positions [?start] = Inr wps"
        by blast
      then show ?thesis
        using False other by (auto simp: plan_filming_route_def Let_def)
    qed
  qed
qed


lemma plan_filming_route_waypoints_example:
  "(\<exists>route self'.
      plan_filming_route (\<lambda>x. x) (CivilianRoutePlanner_init None) \<lparr> pos_lat = 0, pos_lon = 0 \<rparr>
        [\<lparr> pos_lat = 1 / 1000, pos_lon = 1 / 1000 \<rparr>] ''wedding'' None 0 = Inr (route, self') \<and>
      length (waypoints route) = 3 \<and>
      map description (waypoints route) =
        [''Starting position - prepare for filming'', ''Approach subject 1'',
         ''Film subject 1'']) \<and>
   (\<exists>route self'.
      plan_filming_route (\<lambda>x. x) (CivilianRoutePlanner_init None) \<lparr> pos_lat = 0, pos_lon = 0 \<rparr>
        [\<lparr> pos_lat = 1 / 1000, pos_lon = 1 / 1000 \<rparr>, \<lparr> pos_lat = 2 / 1000, pos_lon = 2 / 1000 \<rparr>]
        ''wedding'' None 0 = Inr (route, self') \<and>
      length (waypoints route) = 7 \<and>
      description (waypoints route ! 2) = ''Film subject 1'' \<and>
      description (waypoints route ! 3) = ''Orbit around subject 1'' \<and>
      description (waypoints route ! 5) = ''Film subject 2'' \<and>
      description (waypoints route ! 6) = ''Orbit around subject 2'')"
proof -
  have hyp: "\<forall>d. truthy_advice None = Some d \<longrightarrow> camera_angles_key d \<noteq> Some []"
    by (simp add: truthy_advice_def)
  have two: "show_nat (Suc (Suc 0)) = ''2''" by code_simp
  have one: "show_nat (Suc 0) = ''1''" by code_simp
  let ?p = "CivilianRoutePlanner_init None"
  let ?s0 = "\<lparr> pos_lat = 0, pos_lon = 0 \<rparr>"
  let ?s1 = "\<lparr> pos_lat = 1 / 1000, pos_lon = 1 / 1000 \<rparr>"
  let ?s2 = "\<lparr> pos_lat = 2 / 1000, pos_lon = 2 / 1000 \<rparr>"
  obtain r1 where r1: "plan_filming_route (\<lambda>x. x) ?p ?s0 [?s1] ''wedding'' None 0 =
        Inr (r1, ?p\<lparr> generated_routes := generated_routes ?p @ [r1] \<rparr>)"
    "length (waypoints r1) = 3"
    "map description (waypoints r1) =
        [''Starting position - prepare for filming'', ''Approach subject 1'', ''Film subject 1'']"
    using plan_filming_route_waypoints [OF hyp, of "\<lambda>x. x" ?p ?s0 "[?s1]" "''wedding''" 0] by auto
  obtain r2 where r2: "plan_filming_route (\<lambda>x. x) ?p ?s0 [?s1, ?s2] ''wedding'' None 0 =
        Inr (r2, ?p\<lparr> generated_routes := generated_routes ?p @ [r2] \<rparr>)"
    "length (waypoints r2) = 1 + 3 * length [?s1, ?s2]"
    "\<forall>k < length [?s1, ?s2].
        description (waypoints r2 ! (3 * k + 2)) = ''Film subject '' @ show_nat (k + 1) \<and>
        description (waypoints r2 ! (3 * k + 3)) = ''Orbit around subject '' @ show_nat (k + 1)"
    using plan_filming_route_waypoints [OF hyp, of "\<lambda>x. x" ?p ?s0 "[?s1, ?s2]" "''wedding''" 0] by auto
  have k0: "description (waypoints r2 ! 2) = ''Film subject 1'' \<and>
            description (waypoints r2 ! 3) = ''Orbit around subject 1''"
    using r2(3) [rule_format, of 0] one by (simp add: numeral_2_eq_2)
  have k1: "description (waypoints r2 ! 5) = ''Film subject 2'' \<and>
            description (waypoints r2 ! 6) = ''Orbit around subject 2''"
    using r2(3) [rule_format, of 1] two by simp
  show ?thesis
    using r1 r2(1,2) k0 k1 by auto
qed

text \<open>
  Claim C6 fails on the source for a filming advice whose list of camera angles is
  empty: the film waypoint of the first subject takes \<open>i % len([])\<close> and raises
  \<open>ZeroDivisionError\<close>, for one subject as for several and for every kind, and no
  route is returned. The sequence of shots is guarded against being empty on the line
  before; the list of angles is not.
\<close>

theorem plan_filming_route_empty_angles:
  "plan_filming_route rnd self start_pos (subject_pos # rest) operation_type
     (Some \<lparr> recommended_altitude_key = None, recommended_speed_key = None,
             camera_angles_key = Some [], shot_sequence_key = None,
             lighting_advice_key = None, weather_considerations_key = None,
             framing_tips_key = None, tracking_strategy_key = None \<rparr>) stamp =
     Inl ZeroDivisionError"
  by (simp add: plan_filming_route_def film_camera_angle_def truthy_advice_def
      advice_dict_truthy_def Let_def)

section \<open>Properties of the subject tracker\<close>

lemma clamp_unit: "0 \<le> min 1 (max 0 (q::real)) \<and> min 1 (max 0 q) \<le> 1"
  by simp

lemma framing_score_range:
  "0 \<le> framing_score x1 y1 x2 y2 conf \<and> framing_score x1 y1 x2 y2 conf \<le> 1"
  unfolding framing_score_def Let_def by (rule clamp_unit)

text \<open>Whenever a framing quality is computed, it lies in \<open>[0, 1]\<close>.\<close>

lemma calculate_framing_quality_range:
  assumes "calculate_framing_quality det = Inr q"
  shows "0 \<le> q \<and> q \<le> 1"
proof -
  let ?box = "case det_bbox det of None \<Rightarrow> [0, 0, 0, 0] | Some b \<Rightarrow> b"
  show ?thesis
  proof (cases "length ?box < 4")
    case True
    with assms have "q = 1 / 2" by (simp add: calculate_framing_quality_def Let_def)
    then show ?thesis by simp
  next
    case False
    with assms obtain x1 y1 x2 y2 conf where "q = framing_score x1 y1 x2 y2 conf"
      by (auto simp: calculate_framing_quality_def Let_def split: list.splits)
    then show ?thesis using framing_score_range by simp
  qed
qed

text \<open>
  Claim C9 fails on the source for a box of more than four coordinates: the unpacking
  raises \<open>ValueError\<close>, no quality is computed, and \<open>update_tracking\<close> passes the
  exception on.
\<close>

theorem calculate_framing_quality_long_box:
  "calculate_framing_quality
     \<lparr> det_subject_id = Some ''s1'', det_bbox = Some [0, 0, 100, 100, 5],
       det_confidence = Some (9 / 10) \<rparr> = Inl ValueError \<and>
   fst (update_tracking example_tracker
          [\<lparr> det_subject_id = Some ''s1'', det_bbox = Some [0, 0, 100, 100, 5],
             det_confidence = Some (9 / 10) \<rparr>] 1 None 0 0) = Inl ValueError"
  by (simp add: calculate_framing_quality_def update_tracking_def example_tracker_def
      tracker_start_def FilmingTracker_init_def track_detection_def)

text \<open>
  Claim C10. A tracker that is not running answers every update with the empty list and
  stays exactly as it was: live map, history, advice history and everything else.
\<close>

theorem update_tracking_not_running:
  "\<not> running self \<Longrightarrow>
   update_tracking self detections frame camera_position current_time advice_time =
     (Inr [], self)"
  by (simp add: update_tracking_def)

theorem update_tracking_not_running_witness:
  "\<not> running (tracker_shutdown tracking_s1) \<and>
   tracked_subjects (tracker_shutdown tracking_s1) = [(''s1'', 0)] \<and>
   update_tracking (tracker_shutdown tracking_s1) [example_detection ''s2''] 2 None 10 10 =
     (Inr [], tracker_shutdown tracking_s1)"
proof -
  have stopped: "\<not> running (tracker_shutdown tracking_s1)"
    by (simp add: tracker_shutdown_def)
  have live: "tracked_subjects (tracker_shutdown tracking_s1) = [(''s1'', 0)]"
    by code_simp
  from update_tracking_not_running [OF stopped] stopped live show ?thesis
    by simp
qed

lemma tracker_inv_iff:
  "tracker_inv self \<longleftrightarrow>
     distinct (map fst (tracked_subjects self)) \<and>
     distinct (map snd (tracked_subjects self)) \<and>
     (\<forall>(sid, a) \<in> set (tracked_subjects self).
        a < length (store self) \<and> a \<in> set (tracking_history self) \<and>
        subject_id (store self ! a) = sid) \<and>
     (\<forall>a \<in> set (tracking_history self). a < length (store self))"
  by (simp add: tracker_inv_def list_all_iff)

lemma calculate_framing_quality_returns:
  assumes "case det_bbox det of None \<Rightarrow> True | Some b \<Rightarrow> length b \<le> 4"
  shows "\<exists>q. calculate_framing_quality det = Inr q"
proof (cases "det_bbox det")
  case None
  then show ?thesis by (simp add: calculate_framing_quality_def)
next
  case (Some b)
  with assms have len: "length b \<le> 4" by simp
  show ?thesis
  proof (cases "length b < 4")
    case True
    with Some have "calculate_framing_quality det = Inr (1 / 2)"
      by (simp add: calculate_framing_quality_def)
    then show ?thesis by blast
  next
    case False
    with len have "length b = 4" by simp
    then obtain x1 y1 x2 y2 where "b = [x1, y1, x2, y2]"
      by (auto simp: length_Suc_conv numeral_eq_Suc)
    with Some show ?thesis by (simp add: calculate_framing_quality_def)
  qed
qed

text \<open>The two ways a pass over one detection ends.\<close>

lemma track_detection_Inr:
  assumes "track_detection frame cam now det self = Inr (self', a')"
  shows "(\<exists>q. map_of (tracked_subjects self)
             (resolve_subject_id (length (tracked_subjects self)) det) = Some a' \<and>
            self' = self\<lparr> store := (store self)
                            [a' := refreshed_subject frame cam now det q
                                     (determine_camera_angle det cam) (store self ! a')],
                          tracking_history := tracking_history self @ [a'] \<rparr>) \<or>
         (\<exists>q. map_of (tracked_subjects self)
             (resolve_subject_id (length (tracked_subjects self)) det) = None \<and>
            a' = length (store self) \<and>
            self' = self\<lparr> store := store self @
                            [new_subject (resolve_subject_id (length (tracked_subjects self)) det)
                               frame cam now det q (determine_camera_angle det cam)],
                          tracked_subjects := tracked_subjects self @
                            [(resolve_subject_id (length (tracked_subjects self)) det, a')],
                          tracking_history := tracking_history self @ [a'] \<rparr>)"
  using assms
  by (auto simp: track_detection_def Let_def split: sum.splits option.splits)

lemma track_detection_returns:
  assumes "case det_bbox det of None \<Rightarrow> True | Some b \<Rightarrow> length b \<le> 4"
  shows "\<exists>self' a'. track_detection frame cam now det self = Inr (self', a')"
proof -
  obtain q where "calculate_framing_quality det = Inr q"
    using calculate_framing_quality_returns [OF assms] by blast
  then show ?thesis
    by (simp add: track_detection_def Let_def split: option.splits)
qed


lemma subject_id_refreshed [simp]:
  "subject_id (refreshed_subject frame cam now det q angle t) = subject_id t"
  by (simp add: refreshed_subject_def)

lemma subject_id_new [simp]:
  "subject_id (new_subject sid frame cam now det q angle) = sid"
  by (simp add: new_subject_def)

lemma address_unique:
  assumes "distinct (map snd ts)" "(k, a) \<in> set ts" "(k', a) \<in> set ts"
  shows "k = k'"
proof -
  have "inj_on snd (set ts)" using assms(1) by (simp add: distinct_map)
  from inj_onD [OF this, of "(k, a)" "(k', a)"] assms(2,3) show ?thesis by simp
qed

lemma track_detection_inv:
  assumes inv: "tracker_inv self"
    and step: "track_detection frame cam now det self = Inr (self', a')"
  shows "tracker_inv self'"
  using track_detection_Inr [OF step]
proof (elim disjE exE conjE)
  fix q
  assume m: "map_of (tracked_subjects self)
      (resolve_subject_id (length (tracked_subjects self)) det) = Some a'"
    and s: "self' = self\<lparr> store := (store self)
                            [a' := refreshed_subject frame cam now det q
                                     (determine_camera_angle det cam) (store self ! a')],
                          tracking_history := tracking_history self @ [a'] \<rparr>"
  have mem: "(resolve_subject_id (length (tracked_subjects self)) det, a') \<in> set (tracked_subjects self)"
    using m by (rule map_of_SomeD)
  then have a': "a' < length (store self)"
    using inv by (auto simp: tracker_inv_iff)
  show ?thesis
    using inv a' unfolding s tracker_inv_iff
    by (auto simp: nth_list_update)
next
  fix q
  assume m: "map_of (tracked_subjects self)
      (resolve_subject_id (length (tracked_subjects self)) det) = None"
    and a': "a' = length (store self)"
    and s: "self' = self\<lparr> store := store self @
                            [new_subject (resolve_subject_id (length (tracked_subjects self)) det)
                               frame cam now det q (determine_camera_angle det cam)],
                          tracked_subjects := tracked_subjects self @
                            [(resolve_subject_id (length (tracked_subjects self)) det, a')],
                          tracking_history := tracking_history self @ [a'] \<rparr>"
  have fresh: "resolve_subject_id (length (tracked_subjects self)) det \<notin> fst ` set (tracked_subjects self)"
    using m by (simp add: map_of_eq_None_iff)
  have old: "\<forall>(k, b) \<in> set (tracked_subjects self). b < length (store self)"
    using inv by (auto simp: tracker_inv_iff)
  then have fresh_a: "a' \<notin> snd ` set (tracked_subjects self)"
    unfolding a' by force
  show ?thesis
    using inv fresh fresh_a unfolding s tracker_inv_iff a'
    by (auto simp: nth_append)
qed

lemma track_detection_other:
  assumes inv: "tracker_inv self"
    and step: "track_detection frame cam now det self = Inr (self', a')"
    and live: "map_of (tracked_subjects self) sid = Some a"
    and other: "resolve_subject_id (length (tracked_subjects self)) det \<noteq> sid"
  shows "map_of (tracked_subjects self') sid = Some a \<and> store self' ! a = store self ! a \<and>
         lost_timeout self' = lost_timeout self"
  using track_detection_Inr [OF step]
proof (elim disjE exE conjE)
  fix q
  assume m: "map_of (tracked_subjects self)
      (resolve_subject_id (length (tracked_subjects self)) det) = Some a'"
    and s: "self' = self\<lparr> store := (store self)
                            [a' := refreshed_subject frame cam now det q
                                     (determine_camera_angle det cam) (store self ! a')],
                          tracking_history := tracking_history self @ [a'] \<rparr>"
  have "a' \<noteq> a"
  proof
    assume "a' = a"
    then have "(resolve_subject_id (length (tracked_subjects self)) det, a) \<in> set (tracked_subjects self)"
      using m by (auto dest: map_of_SomeD)
    moreover have "(sid, a) \<in> set (tracked_subjects self)"
      using live by (rule map_of_SomeD)
    moreover have "distinct (map snd (tracked_subjects self))"
      using inv by (simp add: tracker_inv_iff)
    ultimately show False using other address_unique by fastforce
  qed
  then show ?thesis using live unfolding s by simp
next
  fix q
  assume a': "a' = length (store self)"
    and s: "self' = self\<lparr> store := store self @
                            [new_subject (resolve_subject_id (length (tracked_subjects self)) det)
                               frame cam now det q (determine_camera_angle det cam)],
                          tracked_subjects := tracked_subjects self @
                            [(resolve_subject_id (length (tracked_subjects self)) det, a')],
                          tracking_history := tracking_history self @ [a'] \<rparr>"
  have "(sid, a) \<in> set (tracked_subjects self)"
    using live by (rule map_of_SomeD)
  then have "a < length (store self)"
    using inv by (auto simp: tracker_inv_iff)
  then show ?thesis using live unfolding s by (simp add: nth_append)
qed

lemma track_detection_keys:
  assumes step: "track_detection frame cam now det self = Inr (self', a')"
  shows "map fst (tracked_subjects self') =
           (if resolve_subject_id (length (tracked_subjects self)) det
                 \<in> set (map fst (tracked_subjects self))
            then map fst (tracked_subjects self)
            else map fst (tracked_subjects self) @
                   [resolve_subject_id (length (tracked_subjects self)) det])"
  using track_detection_Inr [OF step]
  by (auto simp: map_of_eq_None_iff dest!: map_of_SomeD intro: rev_image_eqI)


lemma track_detections_other:
  assumes "tracker_inv self"
    and "map_of (tracked_subjects self) sid = Some a"
    and "sid \<notin> set (detection_ids (map fst (tracked_subjects self)) dets)"
  shows "tracker_inv (snd (track_detections frame cam now dets self updated)) \<and>
         map_of (tracked_subjects (snd (track_detections frame cam now dets self updated))) sid =
           Some a \<and>
         store (snd (track_detections frame cam now dets self updated)) ! a = store self ! a \<and>
         lost_timeout (snd (track_detections frame cam now dets self updated)) =
           lost_timeout self"
  using assms
proof (induction dets arbitrary: self updated)
  case Nil
  then show ?case by simp
next
  case (Cons det rest)
  show ?case
  proof (cases "track_detection frame cam now det self")
    case (Inl e)
    with Cons.prems show ?thesis by simp
  next
    case (Inr r)
    obtain self1 a1 where r: "r = (self1, a1)" by (cases r)
    have step: "track_detection frame cam now det self = Inr (self1, a1)"
      using Inr r by simp
    have other: "resolve_subject_id (length (tracked_subjects self)) det \<noteq> sid"
      using Cons.prems(3) by (auto simp: Let_def)
    have rest: "sid \<notin> set (detection_ids (map fst (tracked_subjects self1)) rest)"
      using Cons.prems(3) track_detection_keys [OF step] by (simp add: Let_def)
    have inv1: "tracker_inv self1"
      using Cons.prems(1) step by (rule track_detection_inv)
    have keep: "map_of (tracked_subjects self1) sid = Some a \<and> store self1 ! a = store self ! a \<and>
         lost_timeout self1 = lost_timeout self"
      using Cons.prems(1) step Cons.prems(2) other by (rule track_detection_other)
    from Cons.IH [OF inv1 _ rest, of "updated @ [a1]"] keep
    show ?thesis using step by simp
  qed
qed

lemma track_detections_returns:
  assumes "list_all (\<lambda>det. case det_bbox det of None \<Rightarrow> True | Some b \<Rightarrow> length b \<le> 4) dets"
  shows "\<exists>updated'. fst (track_detections frame cam now dets self updated) = Inr updated'"
  using assms
proof (induction dets arbitrary: self updated)
  case Nil
  then show ?case by simp
next
  case (Cons det rest)
  then have "case det_bbox det of None \<Rightarrow> True | Some b \<Rightarrow> length b \<le> 4" by simp
  then obtain self1 a1 where "track_detection frame cam now det self = Inr (self1, a1)"
    using track_detection_returns by blast
  then show ?case using Cons by simp
qed

text \<open>What the loop over the snapshot leaves alone.\<close>

lemma nth_mark_lost:
  "timestamp ((xs[a := (xs ! a)\<lparr> tracking_status := s \<rparr>]) ! b) = timestamp (xs ! b) \<and>
   subject_id ((xs[a := (xs ! a)\<lparr> tracking_status := s \<rparr>]) ! b) = subject_id (xs ! b)"
  by (cases "a < length xs") (simp_all add: nth_list_update list_update_beyond)

lemma check_lost_frame:
  "tracking_history (fst (check_lost now items self lost)) = tracking_history self \<and>
   lost_timeout (fst (check_lost now items self lost)) = lost_timeout self \<and>
   length (store (fst (check_lost now items self lost))) = length (store self) \<and>
   timestamp (store (fst (check_lost now items self lost)) ! b) = timestamp (store self ! b) \<and>
   subject_id (store (fst (check_lost now items self lost)) ! b) = subject_id (store self ! b) \<and>
   set (tracked_subjects (fst (check_lost now items self lost))) \<subseteq> set (tracked_subjects self)"
proof (induction items arbitrary: self lost)
  case Nil
  show ?case by simp
next
  case (Cons item items)
  obtain k c where item: "item = (k, c)" by (cases item)
  show ?case
  proof (cases "lost_timeout self < now - timestamp (store self ! c)")
    case False
    then show ?thesis using Cons.IH [of self lost] by (simp add: item)
  next
    case True
    let ?self1 = "self\<lparr> store := (store self)[c := (store self ! c)\<lparr> tracking_status := ''lost'' \<rparr>],
                    tracked_subjects := filter (\<lambda>(k', b). k' \<noteq> k) (tracked_subjects self) \<rparr>"
    have eq: "check_lost now (item # items) self lost = check_lost now items ?self1 (lost @ [c])"
      using True by (simp add: item)
    show ?thesis
      unfolding eq using Cons.IH [of ?self1 "lost @ [c]"] nth_mark_lost [of "store self" c _ b]
      by auto
  qed
qed

lemma check_lost_stays_lost:
  assumes "tracking_status (store self ! a) = ''lost''"
  shows "tracking_status (store (fst (check_lost now items self lost)) ! a) = ''lost''"
  using assms
proof (induction items arbitrary: self lost)
  case Nil
  then show ?case by simp
next
  case (Cons item items)
  obtain k c where item: "item = (k, c)" by (cases item)
  show ?case
  proof (cases "lost_timeout self < now - timestamp (store self ! c)")
    case False
    then show ?thesis using Cons by (simp add: item)
  next
    case True
    let ?self1 = "self\<lparr> store := (store self)[c := (store self ! c)\<lparr> tracking_status := ''lost'' \<rparr>],
                    tracked_subjects := filter (\<lambda>(k', b). k' \<noteq> k) (tracked_subjects self) \<rparr>"
    have "tracking_status (store ?self1 ! a) = ''lost''"
      using Cons.prems
      by (cases "c < length (store self)") (simp_all add: nth_list_update list_update_beyond)
    from Cons.IH [OF this, of "lost @ [c]"] show ?thesis
      using True by (simp add: item)
  qed
qed

lemma check_lost_marks:
  assumes "(sid, a) \<in> set items"
    and "lost_timeout self < now - timestamp (store self ! a)"
    and "a < length (store self)"
  shows "tracking_status (store (fst (check_lost now items self lost)) ! a) = ''lost'' \<and>
         sid \<notin> fst ` set (tracked_subjects (fst (check_lost now items self lost)))"
  using assms
proof (induction items arbitrary: self lost)
  case Nil
  then show ?case by simp
next
  case (Cons item items)
  obtain k c where item: "item = (k, c)" by (cases item)
  let ?self1 = "self\<lparr> store := (store self)[c := (store self ! c)\<lparr> tracking_status := ''lost'' \<rparr>],
                  tracked_subjects := filter (\<lambda>(k', b). k' \<noteq> k) (tracked_subjects self) \<rparr>"
  show ?case
  proof (cases "(k, c) = (sid, a)")
    case True
    then have eq: "check_lost now (item # items) self lost = check_lost now items ?self1 (lost @ [c])"
      using Cons.prems(2) by (simp add: item)
    have "tracking_status (store ?self1 ! a) = ''lost''"
      using True Cons.prems(3) by simp
    then have st: "tracking_status (store (fst (check_lost now items ?self1 (lost @ [c]))) ! a) = ''lost''"
      by (rule check_lost_stays_lost)
    have "sid \<notin> fst ` set (tracked_subjects ?self1)"
      using True by auto
    moreover have "set (tracked_subjects (fst (check_lost now items ?self1 (lost @ [c]))))
        \<subseteq> set (tracked_subjects ?self1)"
      using check_lost_frame [of now items ?self1 "lost @ [c]"] by blast
    ultimately have "sid \<notin> fst ` set (tracked_subjects (fst (check_lost now items ?self1 (lost @ [c]))))"
      by blast
    with st show ?thesis unfolding eq by simp
  next
    case False
    then have mem: "(sid, a) \<in> set items" using Cons.prems(1) by (auto simp: item)
    show ?thesis
    proof (cases "lost_timeout self < now - timestamp (store self ! c)")
      case False
      then show ?thesis using Cons.IH [OF mem Cons.prems(2,3), of lost] by (simp add: item)
    next
      case True
      have t: "lost_timeout ?self1 < now - timestamp (store ?self1 ! a)"
        using Cons.prems(2) nth_mark_lost [of "store self" c "''lost''" a] by simp
      have l: "a < length (store ?self1)" using Cons.prems(3) by simp
      from Cons.IH [OF mem t l, of "lost @ [c]"] show ?thesis
        using True by (simp add: item)
    qed
  qed
qed


lemma check_lost_inv:
  assumes "tracker_inv self"
  shows "tracker_inv (fst (check_lost now items self lost))"
  using assms
proof (induction items arbitrary: self lost)
  case Nil
  then show ?case by simp
next
  case (Cons item items)
  obtain k c where item: "item = (k, c)" by (cases item)
  show ?case
  proof (cases "lost_timeout self < now - timestamp (store self ! c)")
    case False
    then show ?thesis using Cons by (simp add: item)
  next
    case True
    let ?self1 = "self\<lparr> store := (store self)[c := (store self ! c)\<lparr> tracking_status := ''lost'' \<rparr>],
                    tracked_subjects := filter (\<lambda>(k', b). k' \<noteq> k) (tracked_subjects self) \<rparr>"
    have "tracker_inv ?self1"
      using Cons.prems nth_mark_lost [of "store self" c "''lost''"]
      unfolding tracker_inv_iff
      by (auto simp: distinct_map_filter)
    from Cons.IH [OF this, of "lost @ [c]"] show ?thesis
      using True by (simp add: item)
  qed
qed

text \<open>The invariant holds initially and every operation of the tracker keeps it.\<close>

lemma tracker_inv_init: "tracker_inv (FilmingTracker_init config advisor)"
  by (simp add: tracker_inv_def FilmingTracker_init_def)

lemma tracker_inv_start_shutdown:
  "tracker_inv (tracker_start self) = tracker_inv self"
  "tracker_inv (tracker_shutdown self) = tracker_inv self"
  by (simp_all add: tracker_inv_def tracker_start_def tracker_shutdown_def)

lemma track_detection_frame:
  assumes "track_detection frame cam now det self = Inr (self', a')"
  shows "advice_history self' = advice_history self \<and> lost_timeout self' = lost_timeout self \<and>
         framing_threshold self' = framing_threshold self \<and> ai_advisor self' = ai_advisor self"
  using track_detection_Inr [OF assms] by auto

lemma track_detections_inv:
  assumes "tracker_inv self"
  shows "tracker_inv (snd (track_detections frame cam now dets self updated))"
  using assms
proof (induction dets arbitrary: self updated)
  case Nil
  then show ?case by simp
next
  case (Cons det rest)
  show ?case
  proof (cases "track_detection frame cam now det self")
    case (Inl e)
    with Cons.prems show ?thesis by simp
  next
    case (Inr r)
    obtain self1 a1 where step: "track_detection frame cam now det self = Inr (self1, a1)"
      using Inr by (cases r) simp
    have "tracker_inv self1" using Cons.prems step by (rule track_detection_inv)
    from Cons.IH [OF this, of "updated @ [a1]"] show ?thesis using step by simp
  qed
qed

lemma track_detections_frame:
  "advice_history (snd (track_detections frame cam now dets self updated)) = advice_history self \<and>
   lost_timeout (snd (track_detections frame cam now dets self updated)) = lost_timeout self"
proof (induction dets arbitrary: self updated)
  case Nil
  show ?case by simp
next
  case (Cons det rest)
  show ?case
  proof (cases "track_detection frame cam now det self")
    case (Inl e)
    then show ?thesis by simp
  next
    case (Inr r)
    obtain self1 a1 where step: "track_detection frame cam now det self = Inr (self1, a1)"
      using Inr by (cases r) simp
    from Cons.IH [of self1 "updated @ [a1]"] track_detection_frame [OF step]
    show ?thesis using step by simp
  qed
qed

lemma check_lost_advice_history:
  "advice_history (fst (check_lost now items self lost)) = advice_history self"
proof (induction items arbitrary: self lost)
  case Nil
  show ?case by simp
next
  case (Cons item items)
  obtain k c where item: "item = (k, c)" by (cases item)
  show ?case
    by (cases "lost_timeout self < now - timestamp (store self ! c)")
      (simp_all add: item Cons.IH)
qed

lemma update_tracking_inv:
  assumes "tracker_inv self"
  shows "tracker_inv (snd (update_tracking self dets frame cam now advice_time))"
proof (cases "running self")
  case False
  then show ?thesis using assms by (simp add: update_tracking_def)
next
  case True
  obtain res self1 where td: "track_detections frame cam now dets self [] = (res, self1)"
    by (cases "track_detections frame cam now dets self []")
  have inv1: "tracker_inv self1"
    using track_detections_inv [OF assms, of frame cam now dets "[]"] td by simp
  show ?thesis
  proof (cases res)
    case (Inl e)
    then show ?thesis using True inv1 td by (simp add: update_tracking_def)
  next
    case (Inr updated)
    obtain self2 lost where cl: "check_lost now (tracked_subjects self1) self1 [] = (self2, lost)"
      by (cases "check_lost now (tracked_subjects self1) self1 []")
    have inv2: "tracker_inv self2"
      using check_lost_inv [OF inv1, of now "tracked_subjects self1" "[]"] cl by simp
    have "tracker_inv (self2\<lparr> advice_history := h \<rparr>)" for h
      using inv2 by (simp add: tracker_inv_def)
    then show ?thesis
      using True inv2 td cl Inr
      by (simp add: update_tracking_def Let_def)
  qed
qed

text \<open>
  Claim C5, with the guard of the source. For a running tracker in a state its operations
  produce, and a call whose detections all carry a box of at most four coordinates (so
  that the call returns): a live subject that no detection of the call resolves to, and
  whose last update is older than \<open>lost_timeout\<close>, has the status \<open>lost\<close> after the
  call, is absent from the live map, and is present in the history, where the entry is
  the very object that was marked.
\<close>

theorem update_tracking_evicts_lost:
  assumes run: "running self"
    and inv: "tracker_inv self"
    and live: "map_of (tracked_subjects self) sid = Some a"
    and nomatch: "sid \<notin> set (detection_ids (map fst (tracked_subjects self)) detections)"
    and old: "lost_timeout self < current_time - timestamp (store self ! a)"
    and boxes: "list_all (\<lambda>det. case det_bbox det of None \<Rightarrow> True | Some b \<Rightarrow> length b \<le> 4)
                  detections"
  shows "\<exists>updated self'.
           update_tracking self detections frame camera_position current_time advice_time =
             (Inr updated, self') \<and>
           tracking_status (store self' ! a) = ''lost'' \<and>
           subject_id (store self' ! a) = sid \<and>
           map_of (tracked_subjects self') sid = None \<and>
           a \<in> set (tracking_history self')"
proof -
  let ?td = "track_detections frame camera_position current_time detections self []"
  obtain updated where fst_td: "fst ?td = Inr updated"
    using track_detections_returns [OF boxes] by blast
  define self1 where "self1 = snd ?td"
  have td: "?td = (Inr updated, self1)"
    using fst_td by (simp add: self1_def prod_eq_iff)
  have inv1: "tracker_inv self1"
    and live1: "map_of (tracked_subjects self1) sid = Some a"
    and same: "store self1 ! a = store self ! a"
    and lt: "lost_timeout self1 = lost_timeout self"
    using track_detections_other [OF inv live nomatch, of frame camera_position current_time "[]"]
    unfolding self1_def by blast+
  have mem: "(sid, a) \<in> set (tracked_subjects self1)"
    using live1 by (rule map_of_SomeD)
  then have a: "a < length (store self1)" "a \<in> set (tracking_history self1)"
    "subject_id (store self1 ! a) = sid"
    using inv1 by (auto simp: tracker_inv_iff)
  define cl where "cl = check_lost current_time (tracked_subjects self1) self1 []"
  define self2 where "self2 = fst cl"
  have old1: "lost_timeout self1 < current_time - timestamp (store self1 ! a)"
    using old same lt by simp
  have marks: "tracking_status (store self2 ! a) = ''lost''"
    "sid \<notin> fst ` set (tracked_subjects self2)"
    using check_lost_marks [OF mem old1 a(1), of "[]"] unfolding self2_def cl_def by blast+
  have frame: "tracking_history self2 = tracking_history self1"
    "subject_id (store self2 ! a) = subject_id (store self1 ! a)"
    using check_lost_frame [of current_time "tracked_subjects self1" self1 "[]" a]
    unfolding self2_def cl_def by blast+
  have none: "map_of (tracked_subjects self2) sid = None"
    using marks(2) by (simp add: map_of_eq_None_iff)
  have cl_eq: "cl = (self2, snd cl)" by (simp add: self2_def)
  show ?thesis
    using run td marks(1) frame a none cl_eq
    by (auto simp: update_tracking_def Let_def cl_def [symmetric] split: prod.splits)
qed

theorem update_tracking_evicts_lost_witness:
  "running tracking_s1 \<and> tracker_inv tracking_s1 \<and>
   map_of (tracked_subjects tracking_s1) ''s1'' = Some 0 \<and>
   lost_timeout tracking_s1 < 10 - timestamp (store tracking_s1 ! 0) \<and>
   (\<exists>updated self'.
      update_tracking tracking_s1 [example_detection ''s2''] 2 None 10 10 = (Inr updated, self') \<and>
      tracking_status (store self' ! 0) = ''lost'' \<and>
      subject_id (store self' ! 0) = ''s1'' \<and>
      map_of (tracked_subjects self') ''s1'' = None \<and>
      0 \<in> set (tracking_history self'))"
proof -
  have run: "running tracking_s1" by code_simp
  have inv: "tracker_inv tracking_s1" by code_simp
  have live: "map_of (tracked_subjects tracking_s1) ''s1'' = Some 0" by code_simp
  have nomatch: "''s1'' \<notin> set (detection_ids (map fst (tracked_subjects tracking_s1))
                                [example_detection ''s2''])"
    by code_simp
  have old: "lost_timeout tracking_s1 < 10 - timestamp (store tracking_s1 ! 0)" by code_simp
  have boxes: "list_all (\<lambda>det. case det_bbox det of None \<Rightarrow> True | Some b \<Rightarrow> length b \<le> 4)
                 [example_detection ''s2'']"
    by (simp add: example_detection_def)
  from update_tracking_evicts_lost [OF run inv live nomatch old boxes, of 2 None 10]
  show ?thesis using run inv live old by blast
qed

text \<open>
  The claim as stated has no condition on the tracker. After \<open>shutdown\<close> the live map
  still holds \<open>s1\<close>; an update ten seconds later that does not match it returns at the
  guard \<open>if not self.running\<close>, and \<open>s1\<close> stays live with the status \<open>tracking\<close>.
\<close>

theorem update_tracking_stopped_keeps_subject:
  "map_of (tracked_subjects (tracker_shutdown tracking_s1)) ''s1'' = Some 0 \<and>
   ''s1'' \<notin> set (detection_ids (map fst (tracked_subjects (tracker_shutdown tracking_s1)))
                  [example_detection ''s2'']) \<and>
   lost_timeout (tracker_shutdown tracking_s1) <
     10 - timestamp (store (tracker_shutdown tracking_s1) ! 0) \<and>
   tracking_status
     (store (snd (update_tracking (tracker_shutdown tracking_s1) [example_detection ''s2''] 2
                    None 10 10)) ! 0) = ''tracking'' \<and>
   map_of (tracked_subjects
             (snd (update_tracking (tracker_shutdown tracking_s1) [example_detection ''s2''] 2
                     None 10 10))) ''s1'' = Some 0"
  by code_simp

text \<open>
  Every subject that a call has updated carries the time of the call and the status
  \<open>tracking\<close> when the loop over the detections ends.
\<close>

lemma refreshed_subject_fresh [simp]:
  "timestamp (refreshed_subject frame cam now det q angle t) = now"
  "tracking_status (refreshed_subject frame cam now det q angle t) = ''tracking''"
  by (simp_all add: refreshed_subject_def)

lemma new_subject_fresh [simp]:
  "timestamp (new_subject sid frame cam now det q angle) = now"
  "tracking_status (new_subject sid frame cam now det q angle) = ''tracking''"
  by (simp_all add: new_subject_def)

lemma track_detection_fresh:
  assumes inv: "tracker_inv self"
    and step: "track_detection frame cam now det self = Inr (self', a')"
    and fresh: "\<forall>a \<in> set updated. a < length (store self) \<and>
                  timestamp (store self ! a) = now \<and>
                  tracking_status (store self ! a) = ''tracking''"
  shows "\<forall>a \<in> set (updated @ [a']). a < length (store self') \<and>
           timestamp (store self' ! a) = now \<and>
           tracking_status (store self' ! a) = ''tracking''"
  using track_detection_Inr [OF step]
proof (elim disjE exE conjE)
  fix q
  assume m: "map_of (tracked_subjects self)
      (resolve_subject_id (length (tracked_subjects self)) det) = Some a'"
    and s: "self' = self\<lparr> store := (store self)
                            [a' := refreshed_subject frame cam now det q
                                     (determine_camera_angle det cam) (store self ! a')],
                          tracking_history := tracking_history self @ [a'] \<rparr>"
  have "(resolve_subject_id (length (tracked_subjects self)) det, a') \<in> set (tracked_subjects self)"
    using m by (rule map_of_SomeD)
  then have "a' < length (store self)"
    using inv by (auto simp: tracker_inv_iff)
  then show ?thesis using fresh unfolding s by (auto simp: nth_list_update)
next
  fix q
  assume a': "a' = length (store self)"
    and s: "self' = self\<lparr> store := store self @
                            [new_subject (resolve_subject_id (length (tracked_subjects self)) det)
                               frame cam now det q (determine_camera_angle det cam)],
                          tracked_subjects := tracked_subjects self @
                            [(resolve_subject_id (length (tracked_subjects self)) det, a')],
                          tracking_history := tracking_history self @ [a'] \<rparr>"
  show ?thesis using fresh unfolding s a' by (auto simp: nth_append)
qed

lemma track_detections_fresh:
  assumes "tracker_inv self"
    and "\<forall>a \<in> set updated. a < length (store self) \<and> timestamp (store self ! a) = now \<and>
           tracking_status (store self ! a) = ''tracking''"
    and "track_detections frame cam now dets self updated = (Inr updated', self')"
  shows "\<forall>a \<in> set updated'. a < length (store self') \<and> timestamp (store self' ! a) = now \<and>
           tracking_status (store self' ! a) = ''tracking''"
  using assms
proof (induction dets arbitrary: self updated)
  case Nil
  then show ?case by simp
next
  case (Cons det rest)
  show ?case
  proof (cases "track_detection frame cam now det self")
    case (Inl e)
    with Cons.prems(3) show ?thesis by simp
  next
    case (Inr r)
    obtain self1 a1 where step: "track_detection frame cam now det self = Inr (self1, a1)"
      using Inr by (cases r) simp
    have inv1: "tracker_inv self1" using Cons.prems(1) step by (rule track_detection_inv)
    have fresh1: "\<forall>a \<in> set (updated @ [a1]). a < length (store self1) \<and>
           timestamp (store self1 ! a) = now \<and> tracking_status (store self1 ! a) = ''tracking''"
      using Cons.prems(1) step Cons.prems(2) by (rule track_detection_fresh)
    have run: "track_detections frame cam now rest self1 (updated @ [a1]) = (Inr updated', self')"
      using Cons.prems(3) step by simp
    from Cons.IH [OF inv1 fresh1 run] show ?thesis .
  qed
qed

text \<open>The lost-track loop does not touch a subject whose timestamp is recent enough.\<close>

lemma check_lost_keeps:
  assumes "\<not> lost_timeout self < now - timestamp (store self ! a)"
  shows "tracking_status (store (fst (check_lost now items self lost)) ! a) =
           tracking_status (store self ! a)"
  using assms
proof (induction items arbitrary: self lost)
  case Nil
  show ?case by simp
next
  case (Cons item items)
  obtain k c where item: "item = (k, c)" by (cases item)
  show ?case
  proof (cases "lost_timeout self < now - timestamp (store self ! c)")
    case False
    then show ?thesis using Cons by (simp add: item)
  next
    case True
    let ?self1 = "self\<lparr> store := (store self)[c := (store self ! c)\<lparr> tracking_status := ''lost'' \<rparr>],
                    tracked_subjects := filter (\<lambda>(k', b). k' \<noteq> k) (tracked_subjects self) \<rparr>"
    have ca: "c \<noteq> a" using True Cons.prems by auto
    have keep: "\<not> lost_timeout ?self1 < now - timestamp (store ?self1 ! a)"
      using Cons.prems ca by simp
    have "tracking_status (store ?self1 ! a) = tracking_status (store self ! a)"
      using ca by simp
    with Cons.IH [OF keep, of "lost @ [c]"] show ?thesis
      using True by (simp add: item)
  qed
qed

lemma subject_advice_no_movement:
  assumes "tracking_status tracked \<noteq> ''lost''"
  shows "\<forall>adv \<in> set (subject_advice self t tracked). advice_type adv \<noteq> ''movement''"
proof (cases "ai_advisor self")
  case None
  then show ?thesis using assms by (simp add: subject_advice_def)
next
  case (Some advise)
  obtain r where r: "advise (''How should I improve framing for subject at camera angle '' @
                         subject_camera_angle tracked @ ''?'')
                 (framing_quality tracked) (subject_camera_angle tracked) (bbox tracked) = r"
    by simp
  show ?thesis
    unfolding subject_advice_def
    apply (simp only: Some r assms option.case)
    apply (cases r)
     apply (simp_all only: cap_result.case set_append ball_Un)
     apply (intro conjI)
       apply (simp_all split: if_split)
    done
qed

text \<open>
  With a timeout that is not negative, no call of \<open>update_tracking\<close> adds a
  \<open>movement\<close> advice, whatever subjects it marks lost: the advice is generated for the
  subjects updated in the call, and those are not lost.
\<close>

lemma update_tracking_no_movement:
  assumes inv: "tracker_inv self" and timeout: "0 \<le> lost_timeout self"
  shows "\<exists>new. advice_history (snd (update_tracking self dets frame cam now advice_time)) =
                 advice_history self @ new \<and>
               (\<forall>adv \<in> set new. advice_type adv \<noteq> ''movement'')"
proof (cases "running self")
  case False
  then show ?thesis by (simp add: update_tracking_def)
next
  case True
  obtain res self1 where td: "track_detections frame cam now dets self [] = (res, self1)"
    by (cases "track_detections frame cam now dets self []")
  have frame1: "advice_history self1 = advice_history self" "lost_timeout self1 = lost_timeout self"
    using track_detections_frame [of frame cam now dets self "[]"] td by simp_all
  show ?thesis
  proof (cases res)
    case (Inl e)
    then show ?thesis using True td frame1 by (simp add: update_tracking_def)
  next
    case (Inr updated)
    have fresh: "\<forall>a \<in> set updated. a < length (store self1) \<and> timestamp (store self1 ! a) = now \<and>
           tracking_status (store self1 ! a) = ''tracking''"
      using track_detections_fresh [OF inv _ td [unfolded Inr]] by simp
    obtain self2 lost where cl: "check_lost now (tracked_subjects self1) self1 [] = (self2, lost)"
      by (cases "check_lost now (tracked_subjects self1) self1 []")
    have hist2: "advice_history self2 = advice_history self"
      using check_lost_advice_history [of now "tracked_subjects self1" self1 "[]"] cl frame1
      by simp
    have status: "\<forall>a \<in> set updated. tracking_status (store self2 ! a) \<noteq> ''lost''"
    proof
      fix a
      assume a: "a \<in> set updated"
      then have "\<not> lost_timeout self1 < now - timestamp (store self1 ! a)"
        using fresh timeout frame1 by simp
      from check_lost_keeps [OF this, of "tracked_subjects self1" "[]"] cl fresh a
      show "tracking_status (store self2 ! a) \<noteq> ''lost''" by simp
    qed
    have adv: "\<forall>adv \<in> set (generate_tracking_advice self2 updated cam advice_time).
                 advice_type adv \<noteq> ''movement''"
      using status subject_advice_no_movement
      by (fastforce simp: generate_tracking_advice_def)
    show ?thesis
      using True td cl Inr hist2 adv
      by (simp add: update_tracking_def Let_def)
  qed
qed

text \<open>
  Claim C4 fails on the source. The subjects that the lost-track loop marks are
  collected in \<open>lost_subjects\<close>, and that list is never read: advice is generated for
  the subjects this call updated only. Here the tracker has followed \<open>s1\<close> since time
  0; the update at time 10 sees \<open>s2\<close> alone, marks \<open>s1\<close> lost and removes it, and
  adds no advice at all.
\<close>

theorem update_tracking_lost_without_advice:
  "fst (update_tracking tracking_s1 [example_detection ''s2''] 2 None 10 10) = Inr [1] \<and>
   tracking_status (store tracking_s1 ! 0) = ''tracking'' \<and>
   tracking_status
     (store (snd (update_tracking tracking_s1 [example_detection ''s2''] 2 None 10 10)) ! 0) =
     ''lost'' \<and>
   tracked_subjects (snd (update_tracking tracking_s1 [example_detection ''s2''] 2 None 10 10)) =
     [(''s2'', 1)] \<and>
   map advice_type
     (advice_history (snd (update_tracking tracking_s1 [example_detection ''s2''] 2 None 10 10))) =
     []"
  by code_simp

end
